theory Spec2Isabelle
  imports Main "HOL-Library.Word"
begin

unbundle bit_operations_syntax

section \<open>TinyICOC: the calibrator firmware as HOL functions\<close>

text \<open>
  The firmware of the AVR in-circuit oscillator calibrator (the sketch for the ATtiny84)
  identifies a target microcontroller over the ICSP link, loads a small program into it
  that toggles a pin at 1/16 of the oscillator frequency, measures that frequency for
  32 ms and steps the OSCCAL byte in the target's EEPROM until the deviation from the
  nominal frequency stops shrinking.

  The C integer types are words of their width: \<open>uint8_t\<close> is \<open>8 word\<close> and
  \<open>uint16_t\<close> is \<open>16 word\<close>. On the AVR \<open>int\<close> has 16 bits, so an \<open>uint16_t\<close> operand
  makes the arithmetic unsigned and 16 bits wide.
\<close>

type_synonym uint8_t = "8 word"
type_synonym uint16_t = "16 word"

subsection \<open>Target chip definitions\<close>

text \<open>\<open>TGT_TYPE\<close>: the struct of one supported target. The pointer \<open>PROG\<close> is the
  byte array it points to.\<close>

record TGT_TYPE =
  SIG :: uint16_t
  LFUSE :: uint8_t
  HFUSE :: uint8_t
  EFUSE :: uint8_t
  PSIZE :: uint8_t
  PROG_LENGTH :: uint8_t
  PROG :: "uint8_t list"
  FREQ :: uint16_t
  NAME :: string

definition PROG_T13 :: "uint8_t list" where
  "PROG_T13 =
    [0x09, 0xC0, 0x0E, 0xC0, 0x0D, 0xC0, 0x0C, 0xC0, 0x0B, 0xC0, 0x0A, 0xC0,
     0x09, 0xC0, 0x08, 0xC0, 0x07, 0xC0, 0x06, 0xC0, 0x11, 0x24, 0x1F, 0xBE,
     0xCF, 0xE9, 0xCD, 0xBF, 0x02, 0xD0, 0x12, 0xC0, 0xEF, 0xCF, 0x80, 0xE0,
     0x90, 0xE0, 0x07, 0xD0, 0x81, 0xBF, 0x81, 0xE0, 0x87, 0xBB, 0x92, 0xE4,
     0x9F, 0xBD, 0x83, 0xBF, 0xFF, 0xCF, 0xE1, 0x99, 0xFE, 0xCF, 0x8E, 0xBB,
     0xE0, 0x9A, 0x99, 0x27, 0x8D, 0xB3, 0x08, 0x95, 0xF8, 0x94, 0xFF, 0xCF]"

definition PROG_Tx5 :: "uint8_t list" where
  "PROG_Tx5 =
    [0x0E, 0xC0, 0x13, 0xC0, 0x12, 0xC0, 0x11, 0xC0, 0x10, 0xC0, 0x0F, 0xC0,
     0x0E, 0xC0, 0x0D, 0xC0, 0x0C, 0xC0, 0x0B, 0xC0, 0x0A, 0xC0, 0x09, 0xC0,
     0x08, 0xC0, 0x07, 0xC0, 0x06, 0xC0, 0x11, 0x24, 0x1F, 0xBE, 0xCF, 0xED,
     0xCD, 0xBF, 0x02, 0xD0, 0x13, 0xC0, 0xEA, 0xCF, 0x80, 0xE0, 0x90, 0xE0,
     0x07, 0xD0, 0x81, 0xBF, 0x81, 0xE0, 0x87, 0xBB, 0x92, 0xE4, 0x9A, 0xBD,
     0x83, 0xBF, 0xFF, 0xCF, 0xE1, 0x99, 0xFE, 0xCF, 0x1F, 0xBA, 0x8E, 0xBB,
     0xE0, 0x9A, 0x99, 0x27, 0x8D, 0xB3, 0x08, 0x95, 0xF8, 0x94, 0xFF, 0xCF]"

definition PROG_T24 :: "uint8_t list" where
  "PROG_T24 =
    [0x10, 0xC0, 0x15, 0xC0, 0x14, 0xC0, 0x13, 0xC0, 0x12, 0xC0, 0x11, 0xC0,
     0x10, 0xC0, 0x0F, 0xC0, 0x0E, 0xC0, 0x0D, 0xC0, 0x0C, 0xC0, 0x0B, 0xC0,
     0x0A, 0xC0, 0x09, 0xC0, 0x08, 0xC0, 0x07, 0xC0, 0x06, 0xC0, 0x11, 0x24,
     0x1F, 0xBE, 0xCF, 0xED, 0xCD, 0xBF, 0x02, 0xD0, 0x13, 0xC0, 0xE8, 0xCF,
     0x80, 0xE0, 0x90, 0xE0, 0x07, 0xD0, 0x81, 0xBF, 0x80, 0xE4, 0x8A, 0xBB,
     0x8F, 0xBD, 0x89, 0xE0, 0x8E, 0xBD, 0xFF, 0xCF, 0xE1, 0x99, 0xFE, 0xCF,
     0x1F, 0xBA, 0x8E, 0xBB, 0xE0, 0x9A, 0x99, 0x27, 0x8D, 0xB3, 0x08, 0x95,
     0xF8, 0x94, 0xFF, 0xCF]"

definition PROG_T84 :: "uint8_t list" where
  "PROG_T84 =
    [0x10, 0xC0, 0x17, 0xC0, 0x16, 0xC0, 0x15, 0xC0, 0x14, 0xC0, 0x13, 0xC0,
     0x12, 0xC0, 0x11, 0xC0, 0x10, 0xC0, 0x0F, 0xC0, 0x0E, 0xC0, 0x0D, 0xC0,
     0x0C, 0xC0, 0x0B, 0xC0, 0x0A, 0xC0, 0x09, 0xC0, 0x08, 0xC0, 0x11, 0x24,
     0x1F, 0xBE, 0xCF, 0xE5, 0xD2, 0xE0, 0xDE, 0xBF, 0xCD, 0xBF, 0x02, 0xD0,
     0x13, 0xC0, 0xE6, 0xCF, 0x80, 0xE0, 0x90, 0xE0, 0x07, 0xD0, 0x81, 0xBF,
     0x80, 0xE4, 0x8A, 0xBB, 0x8F, 0xBD, 0x89, 0xE0, 0x8E, 0xBD, 0xFF, 0xCF,
     0xE1, 0x99, 0xFE, 0xCF, 0x9F, 0xBB, 0x8E, 0xBB, 0xE0, 0x9A, 0x99, 0x27,
     0x8D, 0xB3, 0x08, 0x95, 0xF8, 0x94, 0xFF, 0xCF]"

definition PROG_M8 :: "uint8_t list" where
  "PROG_M8 =
    [0x12, 0xC0, 0x19, 0xC0, 0x18, 0xC0, 0x17, 0xC0, 0x16, 0xC0, 0x15, 0xC0,
     0x14, 0xC0, 0x13, 0xC0, 0x12, 0xC0, 0x11, 0xC0, 0x10, 0xC0, 0x0F, 0xC0,
     0x0E, 0xC0, 0x0D, 0xC0, 0x0C, 0xC0, 0x0B, 0xC0, 0x0A, 0xC0, 0x09, 0xC0,
     0x08, 0xC0, 0x11, 0x24, 0x1F, 0xBE, 0xCF, 0xE5, 0xD4, 0xE0, 0xDE, 0xBF,
     0xCD, 0xBF, 0x02, 0xD0, 0x12, 0xC0, 0xE4, 0xCF, 0x80, 0xE0, 0x90, 0xE0,
     0x06, 0xD0, 0x81, 0xBF, 0x88, 0xE0, 0x87, 0xBB, 0x8A, 0xE1, 0x85, 0xBD,
     0xFF, 0xCF, 0xE1, 0x99, 0xFE, 0xCF, 0x9F, 0xBB, 0x8E, 0xBB, 0xE0, 0x9A,
     0x99, 0x27, 0x8D, 0xB3, 0x08, 0x95, 0xF8, 0x94, 0xFF, 0xCF]"

definition TGTs :: "TGT_TYPE list" where
  "TGTs =
    [\<lparr>SIG = 0x9007, LFUSE = 0x6A, HFUSE = 0xFF, EFUSE = 0xFF, PSIZE = 16,
      PROG_LENGTH = 72, PROG = PROG_T13, FREQ = 9600, NAME = ''ATTINY13  ''\<rparr>,
     \<lparr>SIG = 0x9108, LFUSE = 0x62, HFUSE = 0xDF, EFUSE = 0xFF, PSIZE = 16,
      PROG_LENGTH = 84, PROG = PROG_Tx5, FREQ = 8000, NAME = ''ATTINY25  ''\<rparr>,
     \<lparr>SIG = 0x9206, LFUSE = 0x62, HFUSE = 0xDF, EFUSE = 0xFF, PSIZE = 32,
      PROG_LENGTH = 84, PROG = PROG_Tx5, FREQ = 8000, NAME = ''ATTINY45  ''\<rparr>,
     \<lparr>SIG = 0x930B, LFUSE = 0x62, HFUSE = 0xDF, EFUSE = 0xFF, PSIZE = 32,
      PROG_LENGTH = 84, PROG = PROG_Tx5, FREQ = 8000, NAME = ''ATTINY85  ''\<rparr>,
     \<lparr>SIG = 0x910B, LFUSE = 0x62, HFUSE = 0xDF, EFUSE = 0xFF, PSIZE = 16,
      PROG_LENGTH = 88, PROG = PROG_T24, FREQ = 8000, NAME = ''ATTINY24  ''\<rparr>,
     \<lparr>SIG = 0x9207, LFUSE = 0x62, HFUSE = 0xDF, EFUSE = 0xFF, PSIZE = 32,
      PROG_LENGTH = 92, PROG = PROG_T84, FREQ = 8000, NAME = ''ATTINY44  ''\<rparr>,
     \<lparr>SIG = 0x930C, LFUSE = 0x62, HFUSE = 0xDF, EFUSE = 0xFF, PSIZE = 32,
      PROG_LENGTH = 92, PROG = PROG_T84, FREQ = 8000, NAME = ''ATTINY84  ''\<rparr>,
     \<lparr>SIG = 0x9307, LFUSE = 0x64, HFUSE = 0xDF, EFUSE = 0xFF, PSIZE = 32,
      PROG_LENGTH = 94, PROG = PROG_M8, FREQ = 8000, NAME = ''ATMEGA8   ''\<rparr>]"

definition TGT_LENGTH :: nat where
  "TGT_LENGTH = 8"

text \<open>\<open>pgm_read_byte(p++)\<close> on the image of a target: the byte at offset \<open>i\<close> from the
  pointer. The bytes behind the array are whatever the linker placed there, which this
  development does not know; it reads them as \<open>0xFF\<close>. No table entry reads there
  (lemma \<open>TGTs_reads_in_image\<close>).\<close>

definition pgm_read_byte :: "uint8_t list \<Rightarrow> nat \<Rightarrow> uint8_t" where
  "pgm_read_byte p i = (if i < length p then p ! i else 0xFF)"

text \<open>The identification loop of \<open>main\<close>:
  \<^verbatim>\<open>for(target=0; target<TGT_LENGTH; target++) {
    if(signature == pgm_read_word(&TGTs[target])) break;
  }\<close>
  \<open>pgm_read_word(&TGTs[target])\<close> reads the first two bytes of the struct, its field
  \<open>SIG\<close>. \<open>find_target signature target\<close> runs the loop from the index \<open>target\<close> and
  returns the final value of \<open>target\<close>: the index of the first match, or \<open>TGT_LENGTH\<close>.
  The \<open>uint8_t\<close> index never exceeds 8 and is a natural number here.\<close>

function find_target :: "uint16_t \<Rightarrow> nat \<Rightarrow> nat" where
  "find_target signature target =
     (if target < TGT_LENGTH
      then (if signature = SIG (TGTs ! target) then target
            else find_target signature (target + 1))
      else target)"
  by pat_completeness auto
termination
  by (relation "measure (\<lambda>(signature, target). TGT_LENGTH - target)") auto

declare find_target.simps [simp del]

subsection \<open>The outside world\<close>

text \<open>
  What the firmware does to its pins and display is recorded as a list of events, in
  order. What it reads from the hardware comes from an environment: the level of the
  MISO pin at each clock pulse of the link, and the two counter bytes
  (\<open>FRQ_highByte\<close>, \<open>TCNT0\<close>) found at the end of each 32 ms gate. Delays are not
  recorded.
\<close>

datatype event =
    Init                \<comment> \<open>\<open>ICSP_init\<close>: reset, clock and data lines driven low\<close>
  | Release             \<comment> \<open>\<open>ICSP_release\<close>: the lines are inputs again\<close>
  | Tx uint8_t          \<comment> \<open>one byte clocked out on MOSI, most significant bit first\<close>
  | Print string        \<comment> \<open>a text on the display\<close>
  | PrintHex uint8_t    \<comment> \<open>\<open>OLED_printHex\<close>\<close>
  | PrintDec uint16_t   \<comment> \<open>\<open>OLED_printDec\<close>\<close>
  | Button              \<comment> \<open>\<open>BUTTON_wait\<close> returned\<close>

record env =
  miso :: "nat \<Rightarrow> bool"
  counts :: "nat \<Rightarrow> uint8_t \<times> uint8_t"

record world =
  clock :: nat
  gates :: nat
  trace :: "event list"

definition emit :: "event \<Rightarrow> world \<Rightarrow> world" where
  "emit ev w = w\<lparr>trace := trace w @ [ev]\<rparr>"

subsection \<open>In-circuit serial programmer\<close>

definition ICSP_init :: "world \<Rightarrow> world" where
  "ICSP_init w = emit Init w"

definition ICSP_release :: "world \<Rightarrow> world" where
  "ICSP_release w = emit Release w"

text \<open>The bit loop of \<open>ICSP_sendByte\<close>: \<open>i\<close> rounds are left, \<open>byte\<close> is shifted left
  and the sampled MISO bit enters at the right; \<open>t\<close> counts the clock pulses.\<close>

fun ICSP_sendByte_loop :: "nat \<Rightarrow> uint8_t \<Rightarrow> (nat \<Rightarrow> bool) \<Rightarrow> nat \<Rightarrow> uint8_t" where
  "ICSP_sendByte_loop 0 byte pin t = byte"
| "ICSP_sendByte_loop (Suc i) byte pin t =
     ICSP_sendByte_loop i
       (if pin t then push_bit 1 byte OR 1 else push_bit 1 byte) pin (t + 1)"

definition ICSP_sendByte :: "env \<Rightarrow> uint8_t \<Rightarrow> world \<Rightarrow> uint8_t \<times> world" where
  "ICSP_sendByte e byte w =
     (ICSP_sendByte_loop 8 byte (miso e) (clock w),
      emit (Tx byte) (w\<lparr>clock := clock w + 8\<rparr>))"

definition ICSP_enterProgMode :: "env \<Rightarrow> world \<Rightarrow> uint8_t \<times> world" where
  "ICSP_enterProgMode e w =
     (let w1 = ICSP_init w;
          (r1, w2) = ICSP_sendByte e 0xAC w1;
          (r2, w3) = ICSP_sendByte e 0x53 w2;
          (echo, w4) = ICSP_sendByte e 0x00 w3;
          (r4, w5) = ICSP_sendByte e 0x00 w4
      in (if echo = 0x53 then 1 else 0, w5))"

definition ICSP_exitProgMode :: "world \<Rightarrow> world" where
  "ICSP_exitProgMode w = ICSP_release w"

definition ICSP_sendInstr ::
  "env \<Rightarrow> uint8_t \<Rightarrow> uint8_t \<Rightarrow> uint8_t \<Rightarrow> uint8_t \<Rightarrow> world \<Rightarrow> world" where
  "ICSP_sendInstr e byte1 byte2 byte3 byte4 w =
     (let (r1, w1) = ICSP_sendByte e byte1 w;
          (r2, w2) = ICSP_sendByte e byte2 w1;
          (r3, w3) = ICSP_sendByte e byte3 w2;
          (r4, w4) = ICSP_sendByte e byte4 w3
      in w4)"

definition ICSP_readInstr ::
  "env \<Rightarrow> uint8_t \<Rightarrow> uint8_t \<Rightarrow> uint8_t \<Rightarrow> world \<Rightarrow> uint8_t \<times> world" where
  "ICSP_readInstr e byte1 byte2 byte3 w =
     (let (r1, w1) = ICSP_sendByte e byte1 w;
          (r2, w2) = ICSP_sendByte e byte2 w1;
          (r3, w3) = ICSP_sendByte e byte3 w2
      in ICSP_sendByte e 0x00 w3)"

text \<open>\<open>ICSP_readSignature\<close>: the two operands of \<open>|\<close> are read from left to right.\<close>

definition ICSP_readSignature :: "env \<Rightarrow> world \<Rightarrow> uint16_t \<times> world" where
  "ICSP_readSignature e w =
     (let (hi, w1) = ICSP_readInstr e 0x30 0x00 0x01 w;
          (lo, w2) = ICSP_readInstr e 0x30 0x00 0x02 w1
      in (push_bit 8 (ucast hi) OR ucast lo, w2))"

definition ICSP_readCalib :: "env \<Rightarrow> world \<Rightarrow> uint8_t \<times> world" where
  "ICSP_readCalib e w = ICSP_readInstr e 0x38 0x00 0x00 w"

definition ICSP_writeFuses :: "env \<Rightarrow> TGT_TYPE \<Rightarrow> world \<Rightarrow> world" where
  "ICSP_writeFuses e TGT w =
     (let w1 = ICSP_sendInstr e 0xAC 0xA0 0x00 (LFUSE TGT) w;
          w2 = ICSP_sendInstr e 0xAC 0xA8 0x00 (HFUSE TGT) w1
      in ICSP_sendInstr e 0xAC 0xA4 0x00 (EFUSE TGT) w2)"

definition ICSP_eraseChip :: "env \<Rightarrow> world \<Rightarrow> world" where
  "ICSP_eraseChip e w = ICSP_sendInstr e 0xAC 0x80 0x00 0x00 w"

text \<open>\<open>ICSP_writeEEPROM(uint8_t addr, uint8_t data)\<close>: \<open>addr >> 8\<close> of a byte is 0.\<close>

definition ICSP_writeEEPROM :: "env \<Rightarrow> uint8_t \<Rightarrow> uint8_t \<Rightarrow> world \<Rightarrow> world" where
  "ICSP_writeEEPROM e addr data w = ICSP_sendInstr e 0xC0 (drop_bit 8 addr) addr data w"

text \<open>The \<open>do ... while(--length)\<close> loop of \<open>ICSP_writeFlash\<close>, entered with the word
  address \<open>addr\<close>, \<open>length\<close> words to go and the read pointer at offset \<open>p\<close> of the
  image. The bytes passed as \<open>uint8_t\<close> arguments are truncated (\<open>ucast\<close>). It returns
  the final \<open>addr\<close>.\<close>

function ICSP_writeFlash_loop ::
  "env \<Rightarrow> TGT_TYPE \<Rightarrow> uint16_t \<Rightarrow> uint16_t \<Rightarrow> nat \<Rightarrow> world \<Rightarrow> uint16_t \<times> world" where
  "ICSP_writeFlash_loop e TGT addr len p w =
     (let pagesize = (ucast (PSIZE TGT) :: uint16_t);
          w1 = ICSP_sendInstr e 0x40 (ucast (drop_bit 8 addr)) (ucast addr)
                 (pgm_read_byte (PROG TGT) p) w;
          w2 = ICSP_sendInstr e 0x48 (ucast (drop_bit 8 addr)) (ucast addr)
                 (pgm_read_byte (PROG TGT) (p + 1)) w1;
          addr1 = addr + 1;
          w3 = (if addr1 AND (pagesize - 1) = 0
                then ICSP_sendInstr e 0x4C (ucast (drop_bit 8 (addr1 - pagesize)))
                       (ucast (addr1 - pagesize)) 0x00 w2
                else w2);
          len1 = len - 1
      in if len1 \<noteq> 0 then ICSP_writeFlash_loop e TGT addr1 len1 (p + 2) w3
         else (addr1, w3))"
  by pat_completeness auto
termination
proof (relation "measure (\<lambda>(e, TGT, addr, len, p, w). unat (len - 1))", goal_cases)
  case 1
  show ?case by simp
next
  case (2 e TGT addr len p w pagesize w1 w2 addr1 w3 len1)
  then have "len1 \<noteq> 0" by simp
  then have "unat (len1 - 1) < unat len1"
    by (rule measure_unat)
  with 2 show ?case by simp
qed

declare ICSP_writeFlash_loop.simps [simp del]

text \<open>\<open>ICSP_writeFlash\<close>: \<open>length = (TGT.PROG_LENGTH + 1) >> 1\<close> is computed in \<open>int\<close>,
  so the sum does not wrap at 255.\<close>

definition ICSP_writeFlash :: "env \<Rightarrow> TGT_TYPE \<Rightarrow> world \<Rightarrow> world" where
  "ICSP_writeFlash e TGT w =
     (let pagesize = (ucast (PSIZE TGT) :: uint16_t);
          len = drop_bit 1 ((ucast (PROG_LENGTH TGT) :: uint16_t) + 1);
          (addr, w1) = ICSP_writeFlash_loop e TGT 0 len 0 w
      in if addr AND (pagesize - 1) \<noteq> 0
         then ICSP_sendInstr e 0x4C (ucast (drop_bit 8 addr)) (ucast addr) 0x00 w1
         else w1)"

subsection \<open>Frequency measurement\<close>

text \<open>\<open>FRQ_measure\<close> waits for the gate to close and then reads the two counter
  bytes: \<open>freq = (uint16_t)(FRQ_highByte << 8) | TCNT0; freq >>= 1\<close>. The arithmetic
  is \<open>FRQ_count\<close>; the wait is the step to the next gate of the environment.\<close>

definition FRQ_count :: "uint8_t \<Rightarrow> uint8_t \<Rightarrow> uint16_t" where
  "FRQ_count highByte tcnt0 = drop_bit 1 (push_bit 8 (ucast highByte) OR ucast tcnt0)"

definition FRQ_measure :: "env \<Rightarrow> world \<Rightarrow> uint16_t \<times> world" where
  "FRQ_measure e w =
     (let (highByte, tcnt0) = counts e (gates w)
      in (FRQ_count highByte tcnt0, w\<lparr>gates := gates w + 1\<rparr>))"

subsection \<open>Main function\<close>

definition diff :: "uint16_t \<Rightarrow> uint16_t \<Rightarrow> uint16_t" where
  "diff a b = (if a > b then a - b else b - a)"

text \<open>The display and the button, as events. \<open>OLED_setCursor\<close>, the separators
  between the numbers and the supply voltage shown by \<open>OLED_printVCC\<close> are left out:
  nothing is decided on them.\<close>

definition emits :: "event list \<Rightarrow> world \<Rightarrow> world" where
  "emits evs w = w\<lparr>trace := trace w @ evs\<rparr>"

definition print_results :: "uint8_t \<Rightarrow> uint16_t \<Rightarrow> world \<Rightarrow> world" where
  "print_results c frequency w = emits [PrintHex c, PrintDec frequency] w"

text \<open>The variables of the calibration process: \<open>calib\<close>, \<open>lastcalib\<close> and
  \<open>difference\<close> of \<open>main\<close>, and the world. \<open>measured\<close> is a history variable that the
  source does not have: every value of \<open>calib\<close> that was measured, with the frequency
  found for it, in order.\<close>

record calibration =
  calib :: uint8_t
  lastcalib :: uint8_t
  difference :: uint16_t
  measured :: "(uint8_t \<times> uint16_t) list"
  wld :: world

datatype ctl = is_Break: Break (after: calibration) | Continue (after: calibration)

text \<open>\<open>if(frequency > TGT.FREQ) calib--; else calib++;\<close>\<close>

definition next_calib :: "uint16_t \<Rightarrow> uint16_t \<Rightarrow> uint8_t \<Rightarrow> uint8_t" where
  "next_calib frequency freq c = (if frequency > freq then c - 1 else c + 1)"

text \<open>One round of the inner \<open>while(1)\<close> of \<open>main\<close>: \<open>Break\<close> where the source leaves
  the loop, \<open>Continue\<close> where it goes round again.\<close>

definition calibration_step :: "env \<Rightarrow> TGT_TYPE \<Rightarrow> calibration \<Rightarrow> ctl" where
  "calibration_step e TGT s =
     (let (frequency, w1) = FRQ_measure e (wld s);
          s1 = s\<lparr>measured := measured s @ [(calib s, frequency)], wld := w1\<rparr>
      in if diff frequency (FREQ TGT) \<ge> difference s then Break s1
         else
           let w2 = print_results (calib s) frequency w1;
               d = diff frequency (FREQ TGT);
               s2 = s1\<lparr>lastcalib := calib s, difference := d, wld := w2\<rparr>
           in if d = 0 then Break s2
              else
                let c = next_calib frequency (FREQ TGT) (calib s);
                    (r, w3) = ICSP_enterProgMode e w2;
                    w4 = ICSP_writeEEPROM e 0 c w3;
                    w5 = ICSP_exitProgMode w4
                in Continue (s2\<lparr>calib := c, wld := w5\<rparr>))"

lemma calibration_step_decreases:
  "calibration_step e TGT s = Continue s' \<Longrightarrow> difference s' < difference s"
  by (auto simp: calibration_step_def Let_def split_def split: if_splits)

function calibration_loop :: "env \<Rightarrow> TGT_TYPE \<Rightarrow> calibration \<Rightarrow> calibration" where
  "calibration_loop e TGT s =
     (case calibration_step e TGT s of
        Break s' \<Rightarrow> s'
      | Continue s' \<Rightarrow> calibration_loop e TGT s')"
  by pat_completeness auto
termination
proof (relation "measure (\<lambda>(e, TGT, s). unat (difference s))", goal_cases)
  case 1
  show ?case by simp
next
  case (2 e TGT s s')
  then show ?case
    using calibration_step_decreases [of e TGT s s'] by (simp add: word_less_nat_alt)
qed

declare calibration_loop.simps [simp del]

text \<open>The calibration process of \<open>main\<close> from its variables' initialisation
  (\<open>lastcalib = calib\<close>, \<open>difference = 65535\<close>) to the end of the loop.\<close>

definition calibration_process :: "env \<Rightarrow> TGT_TYPE \<Rightarrow> uint8_t \<Rightarrow> world \<Rightarrow> calibration" where
  "calibration_process e TGT c w =
     calibration_loop e TGT
       \<lparr>calib = c, lastcalib = c, difference = 65535, measured = [], wld = w\<rparr>"

text \<open>The lines after the loop: the result is written to EEPROM address 0.\<close>

definition write_result :: "env \<Rightarrow> calibration \<Rightarrow> world" where
  "write_result e s =
     (let (r, w1) = ICSP_enterProgMode e (wld s);
          w2 = ICSP_writeEEPROM e 0 (lastcalib s) w1;
          w3 = ICSP_exitProgMode w2
      in emits [Print ''CALIBRATION COMPLETE!'', Print ''VCC  OSCCAL FREQUENCY'', Button] w3)"

text \<open>The lines between the identification and the loop: the calibration byte is
  read, the chip erased, fuses, flash and EEPROM written.\<close>

definition program_target :: "env \<Rightarrow> TGT_TYPE \<Rightarrow> world \<Rightarrow> uint8_t \<times> world" where
  "program_target e TGT w =
     (let w1 = emits [Print '' CALIBRATING OSC OF  '', Print ''    '', Print (NAME TGT),
                      Print ''...    ''] w;
          (c, w2) = ICSP_readCalib e w1;
          w3 = ICSP_eraseChip e w2;
          w4 = ICSP_writeFuses e TGT w3;
          w5 = ICSP_writeFlash e TGT w4;
          w6 = ICSP_writeEEPROM e 0 c w5
      in (c, ICSP_exitProgMode w6))"

text \<open>The first lines of one round of the outer \<open>while(1)\<close> of \<open>main\<close>: the start
  screen, the button, then the programming mode is entered and the signature read.
  \<open>main\<close> drops the value \<open>r\<close> that \<open>ICSP_enterProgMode\<close> returns; it is handed on
  here only so that it can be spoken about.\<close>

definition identify :: "env \<Rightarrow> world \<Rightarrow> uint8_t \<times> uint16_t \<times> world" where
  "identify e w =
     (let w1 = emits [Print ''PRESS BUTTON TO START'', Print ''  OSC CALIBRATION !  '',
                      Button] w;
          (r, w2) = ICSP_enterProgMode e w1;
          (signature, w3) = ICSP_readSignature e w2
      in (r, signature, w3))"

text \<open>One round of the outer \<open>while(1)\<close> of \<open>main\<close>, from the start screen to the
  last \<open>BUTTON_wait\<close>. \<open>main\<close> repeats this round for ever.\<close>

definition session :: "env \<Rightarrow> world \<Rightarrow> world" where
  "session e w =
     (let (r, signature, w3) = identify e w;
          target = find_target signature 0
      in if target = TGT_LENGTH
         then emits [Print '' ERROR, NO SUPPORTED '', Print ''  DEVICE DETECTED !  '',
                     Button] (ICSP_exitProgMode w3)
         else
           let TGT = TGTs ! target;
               (c, w4) = program_target e TGT w3
           in write_result e (calibration_process e TGT c w4))"

subsection \<open>Reading a trace\<close>

text \<open>The bytes of a trace, and the bytes in groups of four: every exchange with the
  target is a sequence of four bytes. The instructions that change the target's memory
  are the ones \<open>ICSP_eraseChip\<close> (\<open>AC 80\<close>), \<open>ICSP_writeFuses\<close> (\<open>AC A0\<close>, \<open>AC A8\<close>,
  \<open>AC A4\<close>), \<open>ICSP_writeFlash\<close> (\<open>40\<close>, \<open>48\<close>, \<open>4C\<close>) and \<open>ICSP_writeEEPROM\<close> (\<open>C0\<close>)
  send; reading the signature is \<open>30\<close>.\<close>

fun tx_bytes :: "event list \<Rightarrow> uint8_t list" where
  "tx_bytes [] = []"
| "tx_bytes (Tx b # evs) = b # tx_bytes evs"
| "tx_bytes (ev # evs) = tx_bytes evs"

type_synonym instr = "uint8_t \<times> uint8_t \<times> uint8_t \<times> uint8_t"

fun instrs :: "uint8_t list \<Rightarrow> instr list" where
  "instrs (b1 # b2 # b3 # b4 # bs) = (b1, b2, b3, b4) # instrs bs"
| "instrs bs = []"

definition instructions :: "event list \<Rightarrow> instr list" where
  "instructions evs = instrs (tx_bytes evs)"

fun is_erase :: "instr \<Rightarrow> bool" where
  "is_erase (b1, b2, b3, b4) = (b1 = 0xAC \<and> b2 = 0x80)"

fun is_fuse_write :: "instr \<Rightarrow> bool" where
  "is_fuse_write (b1, b2, b3, b4) = (b1 = 0xAC \<and> (b2 = 0xA0 \<or> b2 = 0xA8 \<or> b2 = 0xA4))"

fun is_flash_write :: "instr \<Rightarrow> bool" where
  "is_flash_write (b1, b2, b3, b4) = (b1 = 0x40 \<or> b1 = 0x48 \<or> b1 = 0x4C)"

fun is_eeprom_write :: "instr \<Rightarrow> bool" where
  "is_eeprom_write (b1, b2, b3, b4) = (b1 = 0xC0)"

fun is_read_signature :: "instr \<Rightarrow> bool" where
  "is_read_signature (b1, b2, b3, b4) = (b1 = 0x30)"

definition writes_memory :: "instr \<Rightarrow> bool" where
  "writes_memory i = (is_erase i \<or> is_fuse_write i \<or> is_flash_write i \<or> is_eeprom_write i)"

text \<open>Instructions on the link: \<open>tx_of\<close> is the four bytes of one instruction as
  events, \<open>send\<close> what sending a list of instructions does to the world.\<close>

fun tx_of :: "instr \<Rightarrow> event list" where
  "tx_of (b1, b2, b3, b4) = [Tx b1, Tx b2, Tx b3, Tx b4]"

definition send :: "instr list \<Rightarrow> world \<Rightarrow> world" where
  "send is w = w\<lparr>clock := clock w + 32 * length is, trace := trace w @ concat (map tx_of is)\<rparr>"

text \<open>The high and the low byte of a 16-bit address, as \<open>ICSP_writeFlash\<close> passes them
  (\<open>addr >> 8\<close> and \<open>addr\<close>, cut to \<open>uint8_t\<close>).\<close>

definition hi8 :: "uint16_t \<Rightarrow> uint8_t" where
  "hi8 x = ucast (drop_bit 8 x)"

definition lo8 :: "uint16_t \<Rightarrow> uint8_t" where
  "lo8 x = ucast x"

text \<open>The instructions of one round of the loop of \<open>ICSP_writeFlash\<close>, read off the
  source: the two load instructions and, if the incremented address is a multiple of the
  page size, the write of the page.\<close>

definition loop_instrs :: "TGT_TYPE \<Rightarrow> uint16_t \<Rightarrow> nat \<Rightarrow> instr list" where
  "loop_instrs T addr p =
     [(0x40, hi8 addr, lo8 addr, pgm_read_byte (PROG T) p),
      (0x48, hi8 addr, lo8 addr, pgm_read_byte (PROG T) (p + 1))]
     @ (if (addr + 1) AND (ucast (PSIZE T) - 1) = 0
        then [(0x4C, hi8 (addr + 1 - ucast (PSIZE T)), lo8 (addr + 1 - ucast (PSIZE T)), 0x00)]
        else [])"

text \<open>Flash programming as the specification words it: the image is programmed as pairs
  of a low and a high byte, one 16-bit word each, at the addresses \<open>0, 1, 2, \<dots>\<close>
  (\<open>load_instrs\<close>); after every \<open>ps\<close> words a page-commit is issued for the page just
  filled (\<open>word_instrs\<close>); after the last word, if the last page is only partly filled,
  one more page-commit is issued (\<open>flash_instrs\<close>). \<open>ps\<close> is the page size in words and
  \<open>n\<close> the number of words.\<close>

definition load_instrs :: "uint8_t list \<Rightarrow> nat \<Rightarrow> instr list" where
  "load_instrs prog a =
     [(0x40, hi8 (of_nat a), lo8 (of_nat a), pgm_read_byte prog (2 * a)),
      (0x48, hi8 (of_nat a), lo8 (of_nat a), pgm_read_byte prog (2 * a + 1))]"

definition commit_instr :: "nat \<Rightarrow> instr" where
  "commit_instr a = (0x4C, hi8 (of_nat a), lo8 (of_nat a), 0x00)"

definition word_instrs :: "nat \<Rightarrow> uint8_t list \<Rightarrow> nat \<Rightarrow> instr list" where
  "word_instrs ps prog a =
     load_instrs prog a @ (if (a + 1) mod ps = 0 then [commit_instr (a + 1 - ps)] else [])"

definition flash_instrs :: "nat \<Rightarrow> uint8_t list \<Rightarrow> nat \<Rightarrow> instr list" where
  "flash_instrs ps prog n =
     concat (map (word_instrs ps prog) [0..<n])
       @ (if n mod ps \<noteq> 0 then [commit_instr n] else [])"

fun is_commit :: "instr \<Rightarrow> bool" where
  "is_commit (b1, b2, b3, b4) = (b1 = 0x4C)"

text \<open>The instructions that \<open>main\<close> sends between the identification and the loop, in
  its order: the read of the calibration byte, the chip erase, the three fuses, the flash
  and the calibration byte \<open>c\<close> for EEPROM address 0.\<close>

definition program_instrs :: "TGT_TYPE \<Rightarrow> uint8_t \<Rightarrow> instr list" where
  "program_instrs T c =
     [(0x38, 0x00, 0x00, 0x00), (0xAC, 0x80, 0x00, 0x00),
      (0xAC, 0xA0, 0x00, LFUSE T), (0xAC, 0xA8, 0x00, HFUSE T), (0xAC, 0xA4, 0x00, EFUSE T)]
     @ flash_instrs (unat (PSIZE T)) (PROG T) ((unat (PROG_LENGTH T) + 1) div 2)
     @ [(0xC0, 0x00, 0x00, c)]"

text \<open>What every round sends first: the start screen, the enable command and the two
  reads of the signature.\<close>

definition start_events :: "event list" where
  "start_events =
     [Print ''PRESS BUTTON TO START'', Print ''  OSC CALIBRATION !  '', Button,
      Init, Tx 0xAC, Tx 0x53, Tx 0, Tx 0,
      Tx 0x30, Tx 0, Tx 1, Tx 0, Tx 0x30, Tx 0, Tx 2, Tx 0]"

text \<open>The invariant of the calibration loop: the recorded \<open>difference\<close> is the least
  deviation measured so far, and it was measured for \<open>lastcalib\<close>.\<close>

definition best_so_far :: "TGT_TYPE \<Rightarrow> calibration \<Rightarrow> bool" where
  "best_so_far T s \<longleftrightarrow>
     (\<forall>(c, f) \<in> set (measured s). difference s \<le> diff f (FREQ T)) \<and>
     (if measured s = [] then lastcalib s = calib s \<and> difference s = 65535
      else \<exists>f. (lastcalib s, f) \<in> set (measured s) \<and> diff f (FREQ T) = difference s)"

text \<open>The world before the first round, for examples.\<close>

definition w0 :: world where
  "w0 = \<lparr>clock = 0, gates = 0, trace = []\<rparr>"

text \<open>A target that runs at 8010 kHz with the first calibration byte and at 8011 kHz
  afterwards, and one that runs at 8000 kHz; neither answers on the link. \<open>g_linear\<close>
  is a frequency that falls by 1 kHz with each step of the calibration byte.\<close>

definition e_overshoot :: env where
  "e_overshoot =
     \<lparr>miso = (\<lambda>t. False),
      counts = (\<lambda>n. if n = 0 then (0x3E, 0x94) else (0x3E, 0x96))\<rparr>"

definition e_exact :: env where
  "e_exact = \<lparr>miso = (\<lambda>t. False), counts = (\<lambda>n. (0x3E, 0x80))\<rparr>"

text \<open>A target that does not echo the enable command but answers the two reads of the
  signature with \<open>0x93\<close> and \<open>0x0C\<close>, and one that runs at 9000 kHz.\<close>

definition e_unentered :: env where
  "e_unentered = \<lparr>miso = (\<lambda>t. t \<in> {56, 59, 62, 63, 92, 93}), counts = (\<lambda>n. (0, 0))\<rparr>"

definition e_fast :: env where
  "e_fast = \<lparr>miso = (\<lambda>t. False), counts = (\<lambda>n. (0x46, 0x50))\<rparr>"

definition g_linear :: "uint8_t \<Rightarrow> uint16_t" where
  "g_linear c = 8138 - ucast c"

section \<open>Basic facts\<close>

subsection \<open>Bytes and words\<close>

lemma unat8_less: "unat x < 256" for x :: uint8_t
  using unsigned_less [of x, where 'a = nat] by simp

lemma unat_ucast_8_16: "unat (ucast x :: uint16_t) = unat x" for x :: uint8_t
  using unat8_less [of x] by (simp add: unsigned_ucast_eq take_bit_nat_eq_self)

lemma FRQ_raw_unat:
  "unat (push_bit 8 (ucast hi) OR ucast lo :: uint16_t) = 256 * unat hi + unat lo"
  for hi lo :: uint8_t
proof -
  have lo: "unat lo < 256" and hi: "unat hi < 256"
    by (rule unat8_less)+
  have "(push_bit 8 (ucast hi) OR ucast lo :: uint16_t) = push_bit 8 (ucast hi) + ucast lo"
    using word_cat_eq_push_bit_or [of hi lo, where 'c = 16]
      word_cat_eq [of hi lo, where 'c = 16]
    by simp
  moreover have "unat (push_bit 8 (ucast hi :: uint16_t)) = 256 * unat hi"
    using hi by (simp add: push_bit_eq_mult unat_word_ariths unat_ucast_8_16)
  ultimately show ?thesis
    using lo hi by (simp add: unat_word_ariths unat_ucast_8_16)
qed

lemma FRQ_count_div2: "unat (FRQ_count hi lo) = (256 * unat hi + unat lo) div 2"
proof -
  have "FRQ_count hi lo = (push_bit 8 (ucast hi) OR ucast lo) div 2"
    unfolding FRQ_count_def by (simp only: drop_bit_eq_div power_one_right)
  then show ?thesis
    by (simp only: unat_div FRQ_raw_unat) simp
qed

lemma FRQ_count_less: "FRQ_count hi lo < 32768"
proof -
  have "unat hi < 256" "unat lo < 256" by (rule unat8_less)+
  then have "unat (FRQ_count hi lo) < 32768"
    by (simp add: FRQ_count_div2)
  then show ?thesis by (simp add: word_less_nat_alt)
qed

lemma FRQ_measure_fst:
  "fst (FRQ_measure e w) = FRQ_count (fst (counts e (gates w))) (snd (counts e (gates w)))"
  by (simp add: FRQ_measure_def split_def Let_def)

lemma FRQ_measure_snd: "snd (FRQ_measure e w) = w\<lparr>gates := gates w + 1\<rparr>"
  by (simp add: FRQ_measure_def split_def Let_def)

lemma diff_less_seed:
  assumes "f < 32768" and "t < 32768"
  shows "diff f t < 65535"
  using assms
  by (auto simp: diff_def word_less_nat_alt unat_sub word_le_nat_alt not_less)

subsection \<open>What the link functions do to the world\<close>

text \<open>Each function of the programmer adds its events to the trace and eight clock
  pulses for each byte; what the target answers changes only the value returned.\<close>

lemma ICSP_sendByte_snd:
  "snd (ICSP_sendByte e byte w) = w\<lparr>clock := clock w + 8, trace := trace w @ [Tx byte]\<rparr>"
  by (simp add: ICSP_sendByte_def emit_def)

lemma ICSP_sendByte_fst:
  "fst (ICSP_sendByte e byte w) = ICSP_sendByte_loop 8 byte (miso e) (clock w)"
  by (simp add: ICSP_sendByte_def)

lemma ICSP_sendInstr_eq:
  "ICSP_sendInstr e b1 b2 b3 b4 w =
     w\<lparr>clock := clock w + 32, trace := trace w @ [Tx b1, Tx b2, Tx b3, Tx b4]\<rparr>"
  by (simp add: ICSP_sendInstr_def split_def ICSP_sendByte_snd)

lemma ICSP_readInstr_snd:
  "snd (ICSP_readInstr e b1 b2 b3 w) =
     w\<lparr>clock := clock w + 32, trace := trace w @ [Tx b1, Tx b2, Tx b3, Tx 0]\<rparr>"
  by (simp add: ICSP_readInstr_def split_def ICSP_sendByte_snd)

lemma ICSP_readInstr_fst:
  "fst (ICSP_readInstr e b1 b2 b3 w) = ICSP_sendByte_loop 8 0 (miso e) (clock w + 24)"
  by (simp add: ICSP_readInstr_def split_def ICSP_sendByte_snd ICSP_sendByte_fst add.commute)

lemma ICSP_enterProgMode_snd:
  "snd (ICSP_enterProgMode e w) =
     w\<lparr>clock := clock w + 32, trace := trace w @ [Init, Tx 0xAC, Tx 0x53, Tx 0, Tx 0]\<rparr>"
  by (simp add: ICSP_enterProgMode_def split_def ICSP_sendByte_snd ICSP_init_def emit_def)

lemma ICSP_enterProgMode_fst:
  "fst (ICSP_enterProgMode e w) =
     (if ICSP_sendByte_loop 8 0 (miso e) (clock w + 16) = 0x53 then 1 else 0)"
  by (simp add: ICSP_enterProgMode_def split_def ICSP_sendByte_snd ICSP_sendByte_fst
      ICSP_init_def emit_def add.commute)

lemma ICSP_readSignature_snd:
  "snd (ICSP_readSignature e w) =
     w\<lparr>clock := clock w + 64,
       trace := trace w @ [Tx 0x30, Tx 0, Tx 1, Tx 0, Tx 0x30, Tx 0, Tx 2, Tx 0]\<rparr>"
  by (simp add: ICSP_readSignature_def split_def ICSP_readInstr_snd)

lemma ICSP_readSignature_fst:
  "fst (ICSP_readSignature e w) =
     push_bit 8 (ucast (ICSP_sendByte_loop 8 0 (miso e) (clock w + 24)))
       OR ucast (ICSP_sendByte_loop 8 0 (miso e) (clock w + 56))"
  by (simp add: ICSP_readSignature_def split_def ICSP_readInstr_snd ICSP_readInstr_fst add.commute)

lemma drop_bit_8_byte: "drop_bit 8 x = 0" for x :: uint8_t
  by (rule bit_word_eqI) (simp add: bit_drop_bit_eq bit_word_iff_drop_bit_and)

lemma ICSP_writeEEPROM_eq:
  "ICSP_writeEEPROM e addr data w =
     w\<lparr>clock := clock w + 32, trace := trace w @ [Tx 0xC0, Tx 0, Tx addr, Tx data]\<rparr>"
  by (simp only: ICSP_writeEEPROM_def ICSP_sendInstr_eq drop_bit_8_byte)

lemma ICSP_exitProgMode_eq:
  "ICSP_exitProgMode w = w\<lparr>trace := trace w @ [Release]\<rparr>"
  by (simp add: ICSP_exitProgMode_def ICSP_release_def emit_def)

lemma identify_world:
  "snd (snd (identify e w)) = w\<lparr>clock := clock w + 96, trace := trace w @ start_events\<rparr>"
  by (simp add: identify_def split_def Let_def emits_def ICSP_enterProgMode_snd
      ICSP_readSignature_snd start_events_def)

lemma identify_handshake:
  "fst (identify e w) = (if ICSP_sendByte_loop 8 0 (miso e) (clock w + 16) = 0x53 then 1 else 0)"
  by (simp add: identify_def split_def Let_def emits_def ICSP_enterProgMode_fst)

lemma identify_signature:
  "fst (snd (identify e w)) =
     push_bit 8 (ucast (ICSP_sendByte_loop 8 0 (miso e) (clock w + 56)))
       OR ucast (ICSP_sendByte_loop 8 0 (miso e) (clock w + 88))"
  by (simp add: identify_def split_def Let_def emits_def ICSP_enterProgMode_snd
      ICSP_readSignature_fst add.commute)

text \<open>The bit loop on numerals, for evaluation.\<close>

lemma ICSP_sendByte_loop_numeral:
  "ICSP_sendByte_loop (numeral k) byte pin t =
     ICSP_sendByte_loop (pred_numeral k)
       (if pin t then push_bit 1 byte OR 1 else push_bit 1 byte) pin (t + 1)"
  by (simp add: numeral_eq_Suc)

lemma ICSP_sendByte_loop_1:
  "ICSP_sendByte_loop 1 byte pin t = (if pin t then push_bit 1 byte OR 1 else push_bit 1 byte)"
  by simp

lemmas sendByte_eval = ICSP_sendByte_loop_numeral ICSP_sendByte_loop_1

subsection \<open>The table\<close>

lemma find_target_unfold:
  "find_target sg 0 =
    (if sg = 0x9007 then 0 else if sg = 0x9108 then 1 else if sg = 0x9206 then 2
     else if sg = 0x930B then 3 else if sg = 0x910B then 4 else if sg = 0x9207 then 5
     else if sg = 0x930C then 6 else if sg = 0x9307 then 7 else 8)"
  by (simp add: find_target.simps TGTs_def TGT_LENGTH_def)

lemma TGTs_SIG: "map SIG TGTs = [0x9007, 0x9108, 0x9206, 0x930B, 0x910B, 0x9207, 0x930C, 0x9307]"
  by (simp add: TGTs_def)

lemma TGTs_FREQ: "T \<in> set TGTs \<Longrightarrow> FREQ T = 9600 \<or> FREQ T = 8000"
  by (auto simp: TGTs_def)

lemma less_8_cases:
  "i < (8::nat) \<Longrightarrow> i = 0 \<or> i = 1 \<or> i = 2 \<or> i = 3 \<or> i = 4 \<or> i = 5 \<or> i = 6 \<or> i = 7"
  by arith

lemma TGTs_nth_SIG:
  "i < TGT_LENGTH \<Longrightarrow>
   SIG (TGTs ! i) = [0x9007, 0x9108, 0x9206, 0x930B, 0x910B, 0x9207, 0x930C, 0x9307] ! i"
proof -
  assume "i < TGT_LENGTH"
  then have "i < length TGTs" by (simp add: TGTs_def TGT_LENGTH_def)
  then have "map SIG TGTs ! i = SIG (TGTs ! i)" by (rule nth_map)
  then show ?thesis by (simp only: TGTs_SIG)
qed

lemma find_target_nth: "i < TGT_LENGTH \<Longrightarrow> find_target (SIG (TGTs ! i)) 0 = i"
proof -
  assume i: "i < TGT_LENGTH"
  then have "i = 0 \<or> i = 1 \<or> i = 2 \<or> i = 3 \<or> i = 4 \<or> i = 5 \<or> i = 6 \<or> i = 7"
    using less_8_cases by (simp add: TGT_LENGTH_def)
  then show ?thesis
    unfolding TGTs_nth_SIG [OF i] by (elim disjE) (simp_all add: find_target_unfold)
qed

lemma find_target_absent: "sg \<notin> SIG ` set TGTs \<Longrightarrow> find_target sg 0 = TGT_LENGTH"
proof -
  assume "sg \<notin> SIG ` set TGTs"
  then have "sg \<notin> set (map SIG TGTs)" by simp
  then show "find_target sg 0 = TGT_LENGTH"
    unfolding TGTs_SIG by (simp add: find_target_unfold TGT_LENGTH_def)
qed

lemma find_target_le: "find_target sg 0 \<le> TGT_LENGTH"
  by (simp add: find_target_unfold TGT_LENGTH_def)

lemma find_target_match:
  "find_target sg 0 < TGT_LENGTH \<Longrightarrow> SIG (TGTs ! find_target sg 0) = sg"
  by (simp add: find_target_unfold TGT_LENGTH_def TGTs_def split: if_splits)

lemma find_target_present: "find_target sg 0 < TGT_LENGTH \<longleftrightarrow> sg \<in> SIG ` set TGTs"
proof -
  have "sg \<in> SIG ` set TGTs \<longleftrightarrow> sg \<in> set (map SIG TGTs)" by simp
  then show ?thesis
    unfolding TGTs_SIG by (simp add: find_target_unfold TGT_LENGTH_def)
qed

lemma session_unsupported:
  assumes "fst (snd (identify e w)) \<notin> SIG ` set TGTs"
  shows "session e w = w\<lparr>clock := clock w + 96, trace := trace w @ start_events @
     [Release, Print '' ERROR, NO SUPPORTED '', Print ''  DEVICE DETECTED !  '', Button]\<rparr>"
proof -
  have "find_target (fst (snd (identify e w))) 0 = TGT_LENGTH"
    using assms by (rule find_target_absent)
  then show ?thesis
    by (simp add: session_def split_def Let_def identify_world ICSP_exitProgMode_eq emits_def)
qed

subsection \<open>The calibration loop\<close>

lemma print_results_eq:
  "print_results c f w = w\<lparr>trace := trace w @ [PrintHex c, PrintDec f]\<rparr>"
  by (simp add: print_results_def emits_def)

text \<open>The three ways through one round of the loop.\<close>

lemma calibration_step_rejected:
  assumes "diff (fst (FRQ_measure e (wld s))) (FREQ T) \<ge> difference s"
  shows "calibration_step e T s =
     Break (s\<lparr>measured := measured s @ [(calib s, fst (FRQ_measure e (wld s)))],
              wld := (wld s)\<lparr>gates := gates (wld s) + 1\<rparr>\<rparr>)"
  using assms
  by (simp add: calibration_step_def split_def Let_def FRQ_measure_snd)

lemma calibration_step_exact:
  assumes "\<not> diff (fst (FRQ_measure e (wld s))) (FREQ T) \<ge> difference s"
    and "diff (fst (FRQ_measure e (wld s))) (FREQ T) = 0"
  shows "calibration_step e T s =
     Break (s\<lparr>lastcalib := calib s, difference := 0,
              measured := measured s @ [(calib s, fst (FRQ_measure e (wld s)))],
              wld := (wld s)\<lparr>gates := gates (wld s) + 1,
                trace := trace (wld s) @ [PrintHex (calib s), PrintDec (fst (FRQ_measure e (wld s)))]\<rparr>\<rparr>)"
  using assms
  by (simp add: calibration_step_def split_def Let_def FRQ_measure_snd print_results_eq)

lemma calibration_step_accepted:
  assumes "\<not> diff (fst (FRQ_measure e (wld s))) (FREQ T) \<ge> difference s"
    and "diff (fst (FRQ_measure e (wld s))) (FREQ T) \<noteq> 0"
  shows "calibration_step e T s =
     Continue (s\<lparr>calib := next_calib (fst (FRQ_measure e (wld s))) (FREQ T) (calib s),
              lastcalib := calib s,
              difference := diff (fst (FRQ_measure e (wld s))) (FREQ T),
              measured := measured s @ [(calib s, fst (FRQ_measure e (wld s)))],
              wld := (wld s)\<lparr>clock := clock (wld s) + 64, gates := gates (wld s) + 1,
                trace := trace (wld s) @
                  [PrintHex (calib s), PrintDec (fst (FRQ_measure e (wld s))),
                   Init, Tx 0xAC, Tx 0x53, Tx 0, Tx 0,
                   Tx 0xC0, Tx 0, Tx 0,
                   Tx (next_calib (fst (FRQ_measure e (wld s))) (FREQ T) (calib s)),
                   Release]\<rparr>\<rparr>)"
  using assms
  by (simp add: calibration_step_def split_def Let_def FRQ_measure_snd print_results_eq
      ICSP_enterProgMode_snd ICSP_writeEEPROM_eq ICSP_exitProgMode_eq)

lemma calibration_step_cases:
  obtains (rejected) "diff (fst (FRQ_measure e (wld s))) (FREQ T) \<ge> difference s"
  | (exact) "\<not> diff (fst (FRQ_measure e (wld s))) (FREQ T) \<ge> difference s"
      "diff (fst (FRQ_measure e (wld s))) (FREQ T) = 0"
  | (accepted) "\<not> diff (fst (FRQ_measure e (wld s))) (FREQ T) \<ge> difference s"
      "diff (fst (FRQ_measure e (wld s))) (FREQ T) \<noteq> 0"
  by blast

lemma calibration_step_measured:
  "measured (after (calibration_step e T s)) =
     measured s @ [(calib s, fst (FRQ_measure e (wld s)))]"
  by (cases rule: calibration_step_cases [of s e T])
    (simp_all add: calibration_step_rejected calibration_step_exact calibration_step_accepted)

lemma calibration_step_gates:
  "gates (wld (after (calibration_step e T s))) = gates (wld s) + 1"
  by (cases rule: calibration_step_cases [of s e T])
    (simp_all add: calibration_step_rejected calibration_step_exact calibration_step_accepted)

lemma calibration_step_best:
  "(lastcalib (after (calibration_step e T s)) = lastcalib s
      \<and> difference (after (calibration_step e T s)) = difference s
      \<and> difference s \<le> diff (fst (FRQ_measure e (wld s))) (FREQ T))
   \<or> (lastcalib (after (calibration_step e T s)) = calib s
      \<and> difference (after (calibration_step e T s)) = diff (fst (FRQ_measure e (wld s))) (FREQ T)
      \<and> difference (after (calibration_step e T s)) < difference s)"
  by (cases rule: calibration_step_cases [of s e T])
    (simp_all add: calibration_step_rejected calibration_step_exact calibration_step_accepted
      word_gt_0)

lemma calibration_loop_Break:
  "calibration_step e T s = Break s' \<Longrightarrow> calibration_loop e T s = s'"
  by (simp add: calibration_loop.simps)

lemma calibration_loop_Continue:
  "calibration_step e T s = Continue s' \<Longrightarrow> calibration_loop e T s = calibration_loop e T s'"
  by (subst calibration_loop.simps) simp


text \<open>Number of measurements.\<close>

lemma calibration_loop_count:
  "length (measured (calibration_loop e T s)) \<le> length (measured s) + unat (difference s) + 1
   \<and> length (measured s) < length (measured (calibration_loop e T s))
   \<and> gates (wld (calibration_loop e T s)) + length (measured s)
       = gates (wld s) + length (measured (calibration_loop e T s))"
proof (induction e T s rule: calibration_loop.induct)
  case (1 e T s)
  show ?case
  proof (cases "calibration_step e T s")
    case (Break s')
    then have "measured s' = measured s @ [(calib s, fst (FRQ_measure e (wld s)))]"
      and "gates (wld s') = gates (wld s) + 1"
      using calibration_step_measured [of e T s] calibration_step_gates [of e T s] by simp_all
    then show ?thesis
      by (simp add: calibration_loop_Break [OF Break])
  next
    case (Continue s')
    then have m: "measured s' = measured s @ [(calib s, fst (FRQ_measure e (wld s)))]"
      and g: "gates (wld s') = gates (wld s) + 1"
      using calibration_step_measured [of e T s] calibration_step_gates [of e T s] by simp_all
    have "difference s' < difference s"
      using Continue by (rule calibration_step_decreases)
    then have d: "unat (difference s') < unat (difference s)"
      by (simp add: word_less_nat_alt)
    from "1.IH" [OF Continue] m g d show ?thesis
      by (simp add: calibration_loop_Continue [OF Continue])
  qed
qed

text \<open>The loop only lowers \<open>difference\<close> and only appends to the measurements.\<close>

lemma calibration_loop_difference:
  "difference (calibration_loop e T s) \<le> difference s"
proof (induction e T s rule: calibration_loop.induct)
  case (1 e T s)
  have step: "difference (after (calibration_step e T s)) \<le> difference s"
    using calibration_step_best [of e T s] by auto
  show ?case
  proof (cases "calibration_step e T s")
    case (Break s')
    with step show ?thesis
      by (simp add: calibration_loop_Break [OF Break])
  next
    case (Continue s')
    with step have "difference s' \<le> difference s" by simp
    with "1.IH" [OF Continue] show ?thesis
      by (simp add: calibration_loop_Continue [OF Continue])
  qed
qed

lemma calibration_loop_measured:
  "\<exists>ms. measured (calibration_loop e T s) = measured s @ ms"
proof (induction e T s rule: calibration_loop.induct)
  case (1 e T s)
  show ?case
  proof (cases "calibration_step e T s")
    case (Break s')
    with calibration_step_measured [of e T s] show ?thesis
      by (simp add: calibration_loop_Break [OF Break])
  next
    case (Continue s')
    from "1.IH" [OF Continue] obtain ms
      where "measured (calibration_loop e T s') = measured s' @ ms" ..
    with calibration_step_measured [of e T s] Continue show ?thesis
      by (simp add: calibration_loop_Continue [OF Continue])
  qed
qed

lemma word16_max: "x \<le> (65535 :: uint16_t)"
  using unsigned_less [of x, where 'a = nat] by (simp add: word_le_nat_alt)

lemma best_so_far_step:
  assumes "best_so_far T s"
  shows "best_so_far T (after (calibration_step e T s))"
proof (cases rule: calibration_step_cases [of s e T])
  case rejected
  moreover from rejected have "measured s = [] \<Longrightarrow> difference s = 65535 \<Longrightarrow>
      diff (fst (FRQ_measure e (wld s))) (FREQ T) = 65535"
    using word16_max [of "diff (fst (FRQ_measure e (wld s))) (FREQ T)"] by simp
  ultimately show ?thesis
    using assms
    by (auto simp: calibration_step_rejected best_so_far_def split: if_splits)
next
  case exact
  then show ?thesis
    using assms
    by (auto simp: calibration_step_exact best_so_far_def split: if_splits)
next
  case accepted
  then show ?thesis
    using assms
    by (fastforce simp: calibration_step_accepted best_so_far_def not_le split: if_splits)
qed

lemma best_so_far_loop:
  "best_so_far T s \<Longrightarrow> best_so_far T (calibration_loop e T s)"
proof (induction e T s rule: calibration_loop.induct)
  case (1 e T s)
  show ?case
  proof (cases "calibration_step e T s")
    case (Break s')
    with best_so_far_step [OF "1.prems", of e] show ?thesis
      by (simp add: calibration_loop_Break [OF Break])
  next
    case (Continue s')
    with best_so_far_step [OF "1.prems", of e] have "best_so_far T s'" by simp
    with "1.IH" [OF Continue] show ?thesis
      by (simp add: calibration_loop_Continue [OF Continue])
  qed
qed

lemma write_result_eq:
  "write_result e s = (wld s)\<lparr>clock := clock (wld s) + 64,
     trace := trace (wld s) @
       [Init, Tx 0xAC, Tx 0x53, Tx 0, Tx 0, Tx 0xC0, Tx 0, Tx 0, Tx (lastcalib s), Release,
        Print ''CALIBRATION COMPLETE!'', Print ''VCC  OSCCAL FREQUENCY'', Button]\<rparr>"
  by (simp add: write_result_def split_def Let_def ICSP_enterProgMode_snd ICSP_writeEEPROM_eq
      ICSP_exitProgMode_eq emits_def)

lemma calibration_process_best:
  "\<exists>f. (lastcalib (calibration_process e T c w), f) \<in> set (measured (calibration_process e T c w))
     \<and> (\<forall>(c', f') \<in> set (measured (calibration_process e T c w)).
           diff f (FREQ T) \<le> diff f' (FREQ T))"
proof -
  let ?init = "\<lparr>calib = c, lastcalib = c, difference = 65535, measured = [], wld = w\<rparr>"
  let ?fin = "calibration_loop e T ?init"
  have "best_so_far T ?init" by (simp add: best_so_far_def)
  then have b: "best_so_far T ?fin" by (rule best_so_far_loop)
  have "measured ?fin \<noteq> []"
    using calibration_loop_count [of e T ?init] by auto
  with b obtain f where f: "(lastcalib ?fin, f) \<in> set (measured ?fin)"
    "diff f (FREQ T) = difference ?fin"
    by (auto simp: best_so_far_def)
  with b have "\<forall>(c', f') \<in> set (measured ?fin). diff f (FREQ T) \<le> diff f' (FREQ T)"
    by (auto simp: best_so_far_def)
  with f show ?thesis
    unfolding calibration_process_def by blast
qed

lemma calibration_process_recorded:
  "\<exists>f. (lastcalib (calibration_process e T c w), f) \<in> set (measured (calibration_process e T c w))
     \<and> diff f (FREQ T) = difference (calibration_process e T c w)"
proof -
  let ?init = "\<lparr>calib = c, lastcalib = c, difference = 65535, measured = [], wld = w\<rparr>"
  let ?fin = "calibration_loop e T ?init"
  have "best_so_far T ?init" by (simp add: best_so_far_def)
  then have b: "best_so_far T ?fin" by (rule best_so_far_loop)
  have "measured ?fin \<noteq> []"
    using calibration_loop_count [of e T ?init] by auto
  with b show ?thesis
    unfolding calibration_process_def by (auto simp: best_so_far_def)
qed

subsection \<open>Example runs\<close>

lemma g_linear_unat: "unat (g_linear c) = 8138 - unat c"
proof -
  have "unat (ucast c :: uint16_t) < 256"
    using unat8_less [of c] by (simp add: unat_ucast_8_16)
  then have "(ucast c :: uint16_t) \<le> 8138"
    by (simp add: word_le_nat_alt)
  then show ?thesis
    by (simp add: g_linear_def unat_sub unat_ucast_8_16)
qed

lemma g_linear_decreasing: "a \<le> b \<Longrightarrow> g_linear b \<le> g_linear a"
  by (simp add: word_le_nat_alt g_linear_unat)

lemma TGTs_6: "TGTs ! 6 = \<lparr>SIG = 0x930C, LFUSE = 0x62, HFUSE = 0xDF, EFUSE = 0xFF, PSIZE = 32,
      PROG_LENGTH = 92, PROG = PROG_T84, FREQ = 8000, NAME = ''ATTINY84  ''\<rparr>"
  by (simp add: TGTs_def)

lemma overshoot_run:
  "calibration_process e_overshoot (TGTs ! 6) 128 w0 =
     \<lparr>calib = 127, lastcalib = 128, difference = 10,
      measured = [(128, 8010), (127, 8011)],
      wld = \<lparr>clock = 64, gates = 2,
        trace = [PrintHex 128, PrintDec 8010, Init, Tx 0xAC, Tx 0x53, Tx 0, Tx 0,
                 Tx 0xC0, Tx 0, Tx 0, Tx 127, Release]\<rparr>\<rparr>"
  by (simp add: calibration_process_def calibration_loop.simps calibration_step_def
      split_def Let_def FRQ_measure_def FRQ_count_def diff_def next_calib_def
      print_results_eq ICSP_enterProgMode_snd ICSP_writeEEPROM_eq ICSP_exitProgMode_eq
      e_overshoot_def w0_def TGTs_6)

subsection \<open>Writing the flash\<close>

lemma send_send: "send js (send is w) = send (is @ js) w"
  by (simp add: send_def algebra_simps)

lemma send_Nil: "send [] w = w"
  by (simp add: send_def)

lemma ICSP_sendInstr_send: "ICSP_sendInstr e b1 b2 b3 b4 w = send [(b1, b2, b3, b4)] w"
  by (simp add: ICSP_sendInstr_eq send_def)

lemma ICSP_writeFlash_loop_step:
  "ICSP_writeFlash_loop e T addr len p w =
     (if len - 1 \<noteq> 0
      then ICSP_writeFlash_loop e T (addr + 1) (len - 1) (p + 2) (send (loop_instrs T addr p) w)
      else (addr + 1, send (loop_instrs T addr p) w))"
  by (subst ICSP_writeFlash_loop.simps)
    (simp add: Let_def ICSP_sendInstr_send send_send loop_instrs_def hi8_def lo8_def)

lemma unat_of_nat16: "n < 65536 \<Longrightarrow> unat (of_nat n :: uint16_t) = n"
  by (simp add: unat_of_nat)

lemma and_pagemask:
  assumes "n < 65536"
  shows "((of_nat n :: uint16_t) AND (2 ^ k - 1) = 0) \<longleftrightarrow> n mod 2 ^ k = 0"
proof -
  have "((of_nat n :: uint16_t) AND mask k = 0) \<longleftrightarrow> 2 ^ k dvd unat (of_nat n :: uint16_t)"
    by (simp only: and_mask_dvd_nat)
  then show ?thesis
    using assms by (simp add: mask_eq_decr_exp unat_of_nat16 dvd_eq_mod_eq_0)
qed

lemma loop_instrs_nat:
  assumes ps: "ucast (PSIZE T) = (2 ^ k :: uint16_t)" and a: "a + 1 < 65536"
  shows "loop_instrs T (of_nat a) (2 * a) = word_instrs (2 ^ k) (PROG T) a"
proof -
  have suc: "(of_nat a + 1 :: uint16_t) = of_nat (a + 1)" by simp
  have pg: "((of_nat (a + 1) :: uint16_t) AND (2 ^ k - 1) = 0) \<longleftrightarrow> (a + 1) mod 2 ^ k = 0"
    using a by (rule and_pagemask)
  show ?thesis
  proof (cases "(a + 1) mod 2 ^ k = 0")
    case True
    then have "2 ^ k dvd a + 1" by (simp add: mod_eq_0_iff_dvd)
    then have "2 ^ k \<le> a + 1" by (rule dvd_imp_le) simp
    then have "(of_nat (a + 1) - 2 ^ k :: uint16_t) = of_nat (a + 1 - 2 ^ k)"
      by (simp add: of_nat_diff)
    with True pg show ?thesis
      unfolding loop_instrs_def word_instrs_def load_instrs_def commit_instr_def ps suc
      by simp
  next
    case False
    with pg show ?thesis
      unfolding loop_instrs_def word_instrs_def load_instrs_def commit_instr_def ps suc
      by simp
  qed
qed

lemma ICSP_writeFlash_loop_trace:
  assumes ps: "ucast (PSIZE T) = (2 ^ k :: uint16_t)"
  shows "0 < l \<Longrightarrow> a + l < 65536 \<Longrightarrow>
    ICSP_writeFlash_loop e T (of_nat a) (of_nat l) (2 * a) w =
     (of_nat (a + l), send (concat (map (word_instrs (2 ^ k) (PROG T)) [a..<a + l])) w)"
proof (induction l arbitrary: a w)
  case 0
  then show ?case by simp
next
  case (Suc l)
  let ?W = "word_instrs (2 ^ k) (PROG T)"
  from Suc.prems have a: "a + 1 < 65536" by simp
  have upt: "[a..<a + Suc l] = a # [a + 1..<a + 1 + l]"
    by (simp add: upt_conv_Cons)
  have len: "(of_nat (Suc l) - 1 :: uint16_t) = of_nat l" by simp
  have addr: "(of_nat a + 1 :: uint16_t) = of_nat (a + 1)" by simp
  have p: "2 * a + 2 = 2 * (a + 1)" by simp
  have step: "ICSP_writeFlash_loop e T (of_nat a) (of_nat (Suc l)) (2 * a) w =
     (if (of_nat l :: uint16_t) \<noteq> 0
      then ICSP_writeFlash_loop e T (of_nat (a + 1)) (of_nat l) (2 * (a + 1)) (send (?W a) w)
      else (of_nat (a + 1), send (?W a) w))"
    by (simp only: ICSP_writeFlash_loop_step [of e T "of_nat a"] len addr p
        loop_instrs_nat [OF ps a])
  show ?case
  proof (cases "l = 0")
    case True
    then show ?thesis
      unfolding step by (simp add: True)
  next
    case False
    with Suc.prems have nz: "(of_nat l :: uint16_t) \<noteq> 0"
      by (simp add: of_nat_neq_0)
    from False Suc.prems have "0 < l" "a + 1 + l < 65536" by simp_all
    note IH = Suc.IH [OF this, of "send (?W a) w"]
    have "ICSP_writeFlash_loop e T (of_nat a) (of_nat (Suc l)) (2 * a) w =
        ICSP_writeFlash_loop e T (of_nat (a + 1)) (of_nat l) (2 * (a + 1)) (send (?W a) w)"
      unfolding step using nz by simp
    also have "\<dots> = (of_nat (a + 1 + l), send (concat (map ?W [a + 1..<a + 1 + l])) (send (?W a) w))"
      by (rule IH)
    also have "\<dots> = (of_nat (a + Suc l), send (concat (map ?W [a..<a + Suc l])) w)"
      unfolding upt send_send by simp
    finally show ?thesis .
  qed
qed

lemma unat_PSIZE_ucast:
  assumes "unat (PSIZE T) = 2 ^ k"
  shows "ucast (PSIZE T) = (2 ^ k :: uint16_t)"
proof -
  have "unat (ucast (PSIZE T) :: uint16_t) = 2 ^ k"
    using assms by (simp add: unat_ucast_8_16)
  moreover have "(2::nat) ^ k < 256"
    using unat8_less [of "PSIZE T"] assms by simp
  then have "unat (of_nat (2 ^ k) :: uint16_t) = 2 ^ k"
    by (simp only: unat_of_nat16)
  then have "unat (2 ^ k :: uint16_t) = 2 ^ k"
    by simp
  ultimately show ?thesis
    by (simp add: word_unat_eq_iff)
qed


lemma ICSP_writeFlash_send:
  assumes ps: "unat (PSIZE T) = 2 ^ k" and len: "PROG_LENGTH T \<noteq> 0"
  shows "ICSP_writeFlash e T w =
    send (flash_instrs (2 ^ k) (PROG T) ((unat (PROG_LENGTH T) + 1) div 2)) w"
proof -
  define n where "n = (unat (PROG_LENGTH T) + 1) div 2"
  have ps16: "ucast (PSIZE T) = (2 ^ k :: uint16_t)"
    using ps by (rule unat_PSIZE_ucast)
  have "unat (PROG_LENGTH T) \<noteq> 0"
    using len by (simp add: unat_eq_0)
  then have n: "0 < n" "0 + n < 65536"
    using unat8_less [of "PROG_LENGTH T"] by (simp_all add: n_def)
  have "unat ((ucast (PROG_LENGTH T) :: uint16_t) + 1) = unat (PROG_LENGTH T) + 1"
    using unat8_less [of "PROG_LENGTH T"] by (simp add: unat_word_ariths unat_ucast_8_16)
  then have "unat (drop_bit 1 ((ucast (PROG_LENGTH T) :: uint16_t) + 1)) = n"
    by (simp add: unat_div drop_bit_eq_div n_def)
  then have lenw: "drop_bit 1 ((ucast (PROG_LENGTH T) :: uint16_t) + 1) = of_nat n"
    using n(2) by (simp add: word_unat_eq_iff unat_of_nat16)
  have loop: "ICSP_writeFlash_loop e T 0 (of_nat n) 0 w =
      (of_nat n, send (concat (map (word_instrs (2 ^ k) (PROG T)) [0..<n])) w)"
    using ICSP_writeFlash_loop_trace [OF ps16 n, of e w] by simp
  have pg: "((of_nat n :: uint16_t) AND (2 ^ k - 1) = 0) \<longleftrightarrow> n mod 2 ^ k = 0"
    using n(2) by (simp add: and_pagemask)
  have "ICSP_writeFlash e T w = send (flash_instrs (2 ^ k) (PROG T) n) w"
    unfolding ICSP_writeFlash_def Let_def lenw loop ps16
    by (simp add: pg ICSP_sendInstr_send send_send flash_instrs_def commit_instr_def
        hi8_def lo8_def)
  then show ?thesis by (simp only: n_def)
qed

lemma address_bytes:
  assumes "b < 65536"
  shows "256 * unat (hi8 (of_nat b)) + unat (lo8 (of_nat b)) = b"
proof -
  have "unat (hi8 (of_nat b)) = take_bit 8 (drop_bit 8 b)"
    using assms
    by (simp add: hi8_def unsigned_ucast_eq unat_drop_bit_eq unat_of_nat16)
  also have "\<dots> = b div 256"
    using assms by (simp add: drop_bit_eq_div take_bit_eq_mod)
  finally have hi: "unat (hi8 (of_nat b)) = b div 256" .
  have lo: "unat (lo8 (of_nat b)) = b mod 256"
    using assms by (simp add: lo8_def unsigned_ucast_eq unat_of_nat16 take_bit_eq_mod)
  show ?thesis unfolding hi lo by simp
qed

lemma tx_bytes_append: "tx_bytes (xs @ ys) = tx_bytes xs @ tx_bytes ys"
  by (induction xs rule: tx_bytes.induct) simp_all

lemma instructions_tx_of: "instructions (concat (map tx_of is) @ evs) = is @ instructions evs"
proof (induction "is")
  case Nil
  then show ?case by simp
next
  case (Cons i "is")
  obtain b1 b2 b3 b4 where i: "i = (b1, b2, b3, b4)" by (cases i)
  from Cons show ?case
    by (simp add: i instructions_def)
qed

lemma instructions_tx_of': "instructions (concat (map tx_of is)) = is"
  using instructions_tx_of [of "is" "[]"] by (simp add: instructions_def)

lemma trace_send: "trace (send is w) = trace w @ concat (map tx_of is)"
  by (simp add: send_def)

lemma filter_commit_word_instrs:
  "filter is_commit (word_instrs ps prog a) =
     (if (a + 1) mod ps = 0 then [commit_instr (a + 1 - ps)] else [])"
  by (simp add: word_instrs_def load_instrs_def commit_instr_def)

lemma commits_in_loop:
  "length (filter is_commit (concat (map (word_instrs ps prog) [0..<n]))) = n div ps"
proof (induction n)
  case 0
  then show ?case by simp
next
  case (Suc n)
  then show ?case
    by (simp add: filter_commit_word_instrs div_Suc)
qed

lemma commits_in_flash:
  "length (filter is_commit (flash_instrs ps prog n)) = n div ps + (if n mod ps = 0 then 0 else 1)"
  by (simp add: flash_instrs_def commits_in_loop commit_instr_def)

lemma load_in_word_instrs:
  "(0x48, hi8 (of_nat a), lo8 (of_nat a), pgm_read_byte prog (2 * a + 1))
     \<in> set (load_instrs prog a)"
  "(0x40, hi8 (of_nat a), lo8 (of_nat a), pgm_read_byte prog (2 * a))
     \<in> set (load_instrs prog a)"
  by (simp_all add: load_instrs_def)

lemma flash_instrs_split:
  assumes "m < n"
  shows "flash_instrs ps prog n =
    (concat (map (word_instrs ps prog) [0..<m]) @ load_instrs prog m)
    @ ((if (m + 1) mod ps = 0 then [commit_instr (m + 1 - ps)] else [])
       @ concat (map (word_instrs ps prog) [m + 1..<n])
       @ (if n mod ps \<noteq> 0 then [commit_instr n] else []))"
proof -
  have "[0..<n] = [0..<m] @ m # [m + 1..<n]"
    using assms by (metis Suc_eq_plus1 less_imp_le_nat upt_add_eq_append upt_conv_Cons
        zero_le add_0 le_add_diff_inverse)
  then show ?thesis
    by (simp add: flash_instrs_def word_instrs_def)
qed

lemma loads_in_concat:
  assumes "a < m"
  shows "set (load_instrs prog a) \<subseteq> set (concat (map (word_instrs ps prog) [0..<m]))"
proof -
  from assms have "a \<in> set [0..<m]" by simp
  then have "set (word_instrs ps prog a) \<subseteq> set (concat (map (word_instrs ps prog) [0..<m]))"
    by auto
  moreover have "set (load_instrs prog a) \<subseteq> set (word_instrs ps prog a)"
    by (simp add: word_instrs_def)
  ultimately show ?thesis by (rule order_trans [rotated])
qed

lemma flash_instrs_covers:
  assumes ps: "0 < ps" and a: "a < n"
  shows "\<exists>pre post b. flash_instrs ps prog n = pre @ post
     \<and> (0x40, hi8 (of_nat a), lo8 (of_nat a), pgm_read_byte prog (2 * a)) \<in> set pre
     \<and> (0x48, hi8 (of_nat a), lo8 (of_nat a), pgm_read_byte prog (2 * a + 1)) \<in> set pre
     \<and> commit_instr b \<in> set post \<and> b \<le> n \<and> b div ps = a div ps"
proof -
  define m where "m = (a div ps + 1) * ps - 1"
  have "a div ps < a div ps + 1" by simp
  then have lt: "a < (a div ps + 1) * ps"
    using ps by (simp only: div_less_iff_less_mult)
  then have am: "a \<le> m" and m1: "m + 1 = (a div ps + 1) * ps"
    by (simp_all add: m_def)
  have loads: "(0x40, hi8 (of_nat a), lo8 (of_nat a), pgm_read_byte prog (2 * a))
      \<in> set (concat (map (word_instrs ps prog) [0..<a]) @ load_instrs prog a)"
    "(0x48, hi8 (of_nat a), lo8 (of_nat a), pgm_read_byte prog (2 * a + 1))
      \<in> set (concat (map (word_instrs ps prog) [0..<a]) @ load_instrs prog a)"
    using load_in_word_instrs [of a prog] by simp_all
  show ?thesis
  proof (cases "m < n")
    case True
    let ?pre = "concat (map (word_instrs ps prog) [0..<m]) @ load_instrs prog m"
    have "(m + 1) mod ps = 0" unfolding m1 by simp
    then have split: "flash_instrs ps prog n = ?pre
      @ ([commit_instr (m + 1 - ps)] @ concat (map (word_instrs ps prog) [m + 1..<n])
         @ (if n mod ps \<noteq> 0 then [commit_instr n] else []))"
      using flash_instrs_split [OF True, of ps prog] by simp
    have inpre: "set (load_instrs prog a) \<subseteq> set ?pre"
    proof (cases "a = m")
      case True
      then show ?thesis by simp
    next
      case False
      with am have "a < m" by simp
      then show ?thesis using loads_in_concat [of a m prog ps] by auto
    qed
    let ?post = "[commit_instr (m + 1 - ps)] @ concat (map (word_instrs ps prog) [m + 1..<n])
         @ (if n mod ps \<noteq> 0 then [commit_instr n] else [])"
    have "m + 1 - ps = a div ps * ps" unfolding m1 by simp
    then have b: "(m + 1 - ps) div ps = a div ps" "m + 1 - ps \<le> n"
      using ps True by simp_all
    have c: "commit_instr (m + 1 - ps) \<in> set ?post" by simp
    from inpre load_in_word_instrs [of a prog]
    have l: "(0x40, hi8 (of_nat a), lo8 (of_nat a), pgm_read_byte prog (2 * a)) \<in> set ?pre"
      "(0x48, hi8 (of_nat a), lo8 (of_nat a), pgm_read_byte prog (2 * a + 1)) \<in> set ?pre"
      by blast+
    from split l c b show ?thesis by blast
  next
    case False
    then have hi: "n < (a div ps + 1) * ps" using m1 by simp
    have "a div ps * ps \<le> a" by simp
    from this a have lo: "a div ps * ps < n" by (rule le_less_trans)
    from hi have "n div ps < a div ps + 1"
      using ps by (simp only: div_less_iff_less_mult)
    moreover from a have "a div ps \<le> n div ps"
      by (simp add: div_le_mono)
    ultimately have "n div ps = a div ps" by simp
    moreover have "n mod ps \<noteq> 0"
    proof
      assume "n mod ps = 0"
      then have "n = n div ps * ps" by (simp add: mod_eq_0_iff_dvd)
      with \<open>n div ps = a div ps\<close> lo show False by simp
    qed
    ultimately have split: "flash_instrs ps prog n =
        concat (map (word_instrs ps prog) [0..<n]) @ [commit_instr n]"
      and b: "n div ps = a div ps"
      by (simp_all add: flash_instrs_def)
    from loads_in_concat [OF a, of prog ps] load_in_word_instrs [of a prog]
    have l: "(0x40, hi8 (of_nat a), lo8 (of_nat a), pgm_read_byte prog (2 * a))
        \<in> set (concat (map (word_instrs ps prog) [0..<n]))"
      "(0x48, hi8 (of_nat a), lo8 (of_nat a), pgm_read_byte prog (2 * a + 1))
        \<in> set (concat (map (word_instrs ps prog) [0..<n]))"
      by blast+
    have c: "commit_instr n \<in> set [commit_instr n]" by simp
    from split l c b show ?thesis by blast
  qed
qed

lemma TGTs_flashable:
  assumes "T \<in> set TGTs"
  shows "(unat (PSIZE T) = 2 ^ 4 \<or> unat (PSIZE T) = 2 ^ 5) \<and> PROG_LENGTH T \<noteq> 0"
  using assms by (auto simp: TGTs_def)

lemma TGTs_reads_in_image:
  assumes "T \<in> set TGTs"
  shows "2 * ((unat (PROG_LENGTH T) + 1) div 2) \<le> length (PROG T)"
  using assms
  by (auto simp: TGTs_def PROG_T13_def PROG_Tx5_def PROG_T24_def PROG_T84_def PROG_M8_def)

lemma flashable:
  assumes "T \<in> set TGTs \<or> (\<exists>k. unat (PSIZE T) = 2 ^ k) \<and> PROG_LENGTH T \<noteq> 0"
  obtains k where "unat (PSIZE T) = 2 ^ k" and "PROG_LENGTH T \<noteq> 0"
  using assms TGTs_flashable [of T] by blast

subsection \<open>A whole round\<close>

lemma ICSP_eraseChip_send: "ICSP_eraseChip e w = send [(0xAC, 0x80, 0x00, 0x00)] w"
  by (simp add: ICSP_eraseChip_def ICSP_sendInstr_send)

lemma ICSP_writeFuses_send:
  "ICSP_writeFuses e T w =
     send [(0xAC, 0xA0, 0x00, LFUSE T), (0xAC, 0xA8, 0x00, HFUSE T), (0xAC, 0xA4, 0x00, EFUSE T)] w"
  by (simp add: ICSP_writeFuses_def Let_def ICSP_sendInstr_send send_send)

lemma ICSP_writeEEPROM_send: "ICSP_writeEEPROM e addr data w = send [(0xC0, 0x00, addr, data)] w"
  by (simp add: ICSP_writeEEPROM_eq send_def)

lemma ICSP_readCalib_snd: "snd (ICSP_readCalib e w) = send [(0x38, 0x00, 0x00, 0x00)] w"
  by (simp add: ICSP_readCalib_def ICSP_readInstr_snd send_def)

lemma program_target_trace:
  assumes "T \<in> set TGTs"
  shows "trace (snd (program_target e T w)) = trace w @
     [Print '' CALIBRATING OSC OF  '', Print ''    '', Print (NAME T), Print ''...    '']
     @ concat (map tx_of (program_instrs T (fst (program_target e T w)))) @ [Release]"
proof -
  from TGTs_flashable [OF assms] obtain k where k: "unat (PSIZE T) = 2 ^ k"
    and len: "PROG_LENGTH T \<noteq> 0" by blast
  show ?thesis
    unfolding program_target_def Let_def split_def program_instrs_def
    by (simp add: ICSP_readCalib_snd ICSP_eraseChip_send ICSP_writeFuses_send
        ICSP_writeFlash_send [OF k len] ICSP_writeEEPROM_send ICSP_exitProgMode_eq send_send
        trace_send emits_def k)
qed

lemma calibration_step_trace:
  "\<exists>evs. trace (wld (after (calibration_step e T s))) = trace (wld s) @ evs"
  by (cases rule: calibration_step_cases [of s e T])
    (simp_all add: calibration_step_rejected calibration_step_exact calibration_step_accepted)

lemma calibration_loop_trace:
  "\<exists>evs. trace (wld (calibration_loop e T s)) = trace (wld s) @ evs"
proof (induction e T s rule: calibration_loop.induct)
  case (1 e T s)
  from calibration_step_trace [of e T s] obtain evs
    where evs: "trace (wld (after (calibration_step e T s))) = trace (wld s) @ evs" ..
  show ?case
  proof (cases "calibration_step e T s")
    case (Break s')
    with evs show ?thesis
      by (simp add: calibration_loop_Break [OF Break])
  next
    case (Continue s')
    from "1.IH" [OF Continue] obtain evs'
      where "trace (wld (calibration_loop e T s')) = trace (wld s') @ evs'" ..
    with evs Continue show ?thesis
      by (simp add: calibration_loop_Continue [OF Continue])
  qed
qed

lemma calibration_process_trace:
  "\<exists>evs. trace (wld (calibration_process e T c w)) = trace w @ evs"
  using calibration_loop_trace
    [of e T "\<lparr>calib = c, lastcalib = c, difference = 65535, measured = [], wld = w\<rparr>"]
  by (simp add: calibration_process_def)

lemma session_supported_eq:
  assumes "find_target (fst (snd (identify e w))) 0 < TGT_LENGTH"
    and "T = TGTs ! find_target (fst (snd (identify e w))) 0"
    and "w3 = snd (snd (identify e w))"
  shows "session e w =
    write_result e
      (calibration_process e T (fst (program_target e T w3)) (snd (program_target e T w3)))"
  using assms by (simp add: session_def split_def Let_def)

lemma session_supported:
  assumes "fst (snd (identify e w)) \<in> SIG ` set TGTs"
    and "T = TGTs ! find_target (fst (snd (identify e w))) 0"
  shows "\<exists>c evs. trace (session e w) = trace w @ start_events @
     [Print '' CALIBRATING OSC OF  '', Print ''    '', Print (NAME T), Print ''...    '']
     @ concat (map tx_of (program_instrs T c)) @ [Release] @ evs"
proof -
  let ?w3 = "snd (snd (identify e w))"
  have lt: "find_target (fst (snd (identify e w))) 0 < TGT_LENGTH"
    using assms(1) by (simp add: find_target_present)
  have "length TGTs = TGT_LENGTH" by (simp add: TGTs_def TGT_LENGTH_def)
  with lt have T: "T \<in> set TGTs"
    unfolding assms(2) by (simp only: nth_mem)
  let ?c = "fst (program_target e T ?w3)"
  let ?w4 = "snd (program_target e T ?w3)"
  let ?s = "calibration_process e T ?c ?w4"
  have s: "session e w = write_result e ?s"
    using lt by (simp add: session_def split_def Let_def assms(2))
  obtain evs where evs: "trace (wld ?s) = trace ?w4 @ evs"
    using calibration_process_trace [of e T ?c ?w4] ..
  have "trace (session e w) = trace ?w4 @ evs @
      [Init, Tx 0xAC, Tx 0x53, Tx 0, Tx 0, Tx 0xC0, Tx 0, Tx 0, Tx (lastcalib ?s), Release,
        Print ''CALIBRATION COMPLETE!'', Print ''VCC  OSCCAL FREQUENCY'', Button]"
    unfolding s write_result_eq by (simp add: evs)
  then have "trace (session e w) = trace w @ start_events @
     [Print '' CALIBRATING OSC OF  '', Print ''    '', Print (NAME T), Print ''...    '']
     @ concat (map tx_of (program_instrs T ?c)) @ [Release] @ (evs @
      [Init, Tx 0xAC, Tx 0x53, Tx 0, Tx 0, Tx 0xC0, Tx 0, Tx 0, Tx (lastcalib ?s), Release,
        Print ''CALIBRATION COMPLETE!'', Print ''VCC  OSCCAL FREQUENCY'', Button])"
    unfolding program_target_trace [OF T] identify_world by simp
  then show ?thesis by blast
qed


lemma instructions_start:
  "instructions (start_events @ evs) =
     [(0xAC, 0x53, 0x00, 0x00), (0x30, 0x00, 0x01, 0x00), (0x30, 0x00, 0x02, 0x00)]
     @ instructions evs"
  by (simp add: instructions_def start_events_def)

lemma instructions_session_supported:
  assumes "fst (snd (identify e w)) \<in> SIG ` set TGTs"
    and "T = TGTs ! find_target (fst (snd (identify e w))) 0"
  shows "\<exists>c is. instructions (drop (length (trace w)) (trace (session e w))) =
     [(0xAC, 0x53, 0x00, 0x00), (0x30, 0x00, 0x01, 0x00), (0x30, 0x00, 0x02, 0x00)]
     @ program_instrs T c @ is"
proof -
  from session_supported [OF assms] obtain c evs where
    "trace (session e w) = trace w @ start_events @
     [Print '' CALIBRATING OSC OF  '', Print ''    '', Print (NAME T), Print ''...    '']
     @ concat (map tx_of (program_instrs T c)) @ [Release] @ evs"
    by blast
  then have "instructions (drop (length (trace w)) (trace (session e w))) =
     [(0xAC, 0x53, 0x00, 0x00), (0x30, 0x00, 0x01, 0x00), (0x30, 0x00, 0x02, 0x00)]
     @ instructions ([Print '' CALIBRATING OSC OF  '', Print ''    '', Print (NAME T),
         Print ''...    ''] @ concat (map tx_of (program_instrs T c)) @ [Release] @ evs)"
    by (simp add: instructions_start)
  also have "instructions ([Print '' CALIBRATING OSC OF  '', Print ''    '', Print (NAME T),
         Print ''...    ''] @ concat (map tx_of (program_instrs T c)) @ [Release] @ evs)
     = instructions (concat (map tx_of (program_instrs T c)) @ [Release] @ evs)"
    by (simp add: instructions_def)
  also have "\<dots> = program_instrs T c @ instructions ([Release] @ evs)"
    by (rule instructions_tx_of)
  finally show ?thesis by blast
qed

section \<open>The frequency conversion\<close>

text \<open>
  C5. \<open>FRQ_measure\<close> joins the software high byte and the counter register to one
  16-bit count and halves it: the frequency it returns is the count divided by two,
  rounded down. A count of 16000 (high byte \<open>0x3E\<close>, register \<open>0x80\<close>) is reported as
  8000 kHz.
\<close>

theorem FRQ_measure_half:
  "unat (fst (FRQ_measure e w)) =
     (256 * unat (fst (counts e (gates w))) + unat (snd (counts e (gates w)))) div 2
   \<and> 256 * unat (0x3E :: uint8_t) + unat (0x80 :: uint8_t) = 16000
   \<and> fst (FRQ_measure \<lparr>miso = pin, counts = (\<lambda>n. (0x3E, 0x80))\<rparr> w) = 8000"
proof (intro conjI)
  show "unat (fst (FRQ_measure e w)) =
     (256 * unat (fst (counts e (gates w))) + unat (snd (counts e (gates w)))) div 2"
    by (simp add: FRQ_measure_fst FRQ_count_div2)
  show "256 * unat (0x3E :: uint8_t) + unat (0x80 :: uint8_t) = 16000"
    by simp
  show "fst (FRQ_measure \<lparr>miso = pin, counts = (\<lambda>n. (0x3E, 0x80))\<rparr> w) = 8000"
    by (simp add: FRQ_measure_fst FRQ_count_def)
qed

section \<open>The identification\<close>

text \<open>
  C6. The identification loop scans the table in its order and stops at the first
  entry whose \<open>SIG\<close> equals the signature: no entry before the one it stops at has the
  signature. The eight signatures of the table are distinct, so for the signature of the
  entry at index \<open>i\<close> the loop ends with \<open>target = i\<close>; whenever it ends below
  \<open>TGT_LENGTH\<close> the entry found has the queried signature; and for a signature that no
  entry has it ends with \<open>target = TGT_LENGTH\<close>, which \<open>main\<close> reads as no match.
\<close>

theorem find_target_lookup:
  "length TGTs = TGT_LENGTH \<and> distinct (map SIG TGTs)
   \<and> (\<forall>i < TGT_LENGTH. find_target (SIG (TGTs ! i)) 0 = i)
   \<and> (\<forall>sg. sg \<notin> SIG ` set TGTs \<longrightarrow> find_target sg 0 = TGT_LENGTH)
   \<and> (\<forall>sg. find_target sg 0 < TGT_LENGTH \<longrightarrow> SIG (TGTs ! find_target sg 0) = sg)
   \<and> (\<forall>sg j. j < find_target sg 0 \<longrightarrow> SIG (TGTs ! j) \<noteq> sg)"
proof (intro conjI allI impI)
  show "length TGTs = TGT_LENGTH" by (simp add: TGTs_def TGT_LENGTH_def)
  show "distinct (map SIG TGTs)" by (simp add: TGTs_SIG)
next
  fix i assume "i < TGT_LENGTH"
  then show "find_target (SIG (TGTs ! i)) 0 = i" by (rule find_target_nth)
next
  fix sg assume "sg \<notin> SIG ` set TGTs"
  then show "find_target sg 0 = TGT_LENGTH" by (rule find_target_absent)
next
  fix sg assume "find_target sg 0 < TGT_LENGTH"
  then show "SIG (TGTs ! find_target sg 0) = sg" by (rule find_target_match)
next
  fix sg j assume j: "j < find_target sg 0"
  show "SIG (TGTs ! j) \<noteq> sg"
  proof
    assume eq: "SIG (TGTs ! j) = sg"
    from j find_target_le [of sg] have "j < TGT_LENGTH" by simp
    then have "find_target (SIG (TGTs ! j)) 0 = j" by (rule find_target_nth)
    with eq j show False by simp
  qed
qed

theorem find_target_lookup_witness:
  "(6::nat) < TGT_LENGTH \<and> find_target (SIG (TGTs ! 6)) 0 = 6 \<and> SIG (TGTs ! 6) = 0x930C
   \<and> (0x1234 :: uint16_t) \<notin> SIG ` set TGTs \<and> find_target 0x1234 0 = TGT_LENGTH"
proof -
  have a: "(6::nat) < TGT_LENGTH" by (simp add: TGT_LENGTH_def)
  have b: "(0x1234 :: uint16_t) \<notin> SIG ` set TGTs" by (simp add: TGTs_def)
  from find_target_lookup a have "find_target (SIG (TGTs ! 6)) 0 = 6" by blast
  moreover from find_target_lookup b have "find_target 0x1234 0 = TGT_LENGTH" by blast
  moreover have "SIG (TGTs ! 6) = 0x930C" by (simp add: TGTs_def)
  ultimately show ?thesis using a b by simp
qed

section \<open>The enable handshake and the unsupported device\<close>

text \<open>
  C1, as stated, fails. The target \<open>e_unentered\<close> does not echo \<open>0x53\<close>, so that
  \<open>ICSP_enterProgMode\<close> returns 0, and answers the reads of the signature with that of
  the ATtiny84. The round goes on all the same: the two read-signature instructions, the
  read of the calibration byte and the chip erase are sent on the link that was never
  entered.
\<close>

theorem unentered_session_erases:
  "fst (identify e_unentered w0) = 0
   \<and> fst (snd (identify e_unentered w0)) = 0x930C
   \<and> take 5 (instructions (trace (session e_unentered w0))) =
       [(0xAC, 0x53, 0, 0), (0x30, 0, 1, 0), (0x30, 0, 2, 0), (0x38, 0, 0, 0), (0xAC, 0x80, 0, 0)]
   \<and> is_read_signature (0x30, 0, 1, 0) \<and> is_erase (0xAC, 0x80, 0, 0)"
proof -
  have r: "fst (identify e_unentered w0) = 0"
    by (simp add: identify_handshake e_unentered_def sendByte_eval w0_def)
  have sg: "fst (snd (identify e_unentered w0)) = 0x930C"
    by (simp add: identify_signature e_unentered_def sendByte_eval w0_def)
  then have "fst (snd (identify e_unentered w0)) \<in> SIG ` set TGTs"
    by (simp add: TGTs_def)
  from instructions_session_supported [OF this refl] obtain c "is" where
    "instructions (drop (length (trace w0)) (trace (session e_unentered w0))) =
     [(0xAC, 0x53, 0x00, 0x00), (0x30, 0x00, 0x01, 0x00), (0x30, 0x00, 0x02, 0x00)]
     @ program_instrs (TGTs ! find_target (fst (snd (identify e_unentered w0))) 0) c @ is"
    by blast
  then have "take 5 (instructions (trace (session e_unentered w0))) =
       [(0xAC, 0x53, 0, 0), (0x30, 0, 1, 0), (0x30, 0, 2, 0), (0x38, 0, 0, 0), (0xAC, 0x80, 0, 0)]"
    by (simp add: w0_def program_instrs_def)
  with r sg show ?thesis by simp
qed

text \<open>
  C1, as the code has it. \<open>ICSP_enterProgMode\<close> tells its caller whether the third byte
  of the enable command was echoed as \<open>0x53\<close>: it returns 1 if so and 0 otherwise. \<open>main\<close>
  does not look at that value. In every round the enable command is followed by the two
  read-signature instructions, and what follows them depends on the signature alone:
  if no entry of the table has it, no instruction that erases or writes the target is
  sent in the round; if an entry has it, the read of the calibration byte, the chip
  erase and the three fuse writes of that entry follow, whatever the handshake returned.
\<close>

theorem handshake_result_dropped:
  assumes "evs = drop (length (trace w)) (trace (session e w))"
    and "sg = fst (snd (identify e w))"
    and "echo = ICSP_sendByte_loop 8 0 (miso e) (clock w + 16)"
  shows "fst (ICSP_enterProgMode e w) = (if echo = 0x53 then 1 else 0)
    \<and> take 3 (instructions evs) = [(0xAC, 0x53, 0, 0), (0x30, 0, 1, 0), (0x30, 0, 2, 0)]
    \<and> (sg \<notin> SIG ` set TGTs \<longrightarrow> (\<forall>i \<in> set (instructions evs). \<not> writes_memory i))
    \<and> (sg \<in> SIG ` set TGTs \<longrightarrow>
         take 5 (drop 3 (instructions evs)) =
           [(0x38, 0, 0, 0), (0xAC, 0x80, 0, 0),
            (0xAC, 0xA0, 0, LFUSE (TGTs ! find_target sg 0)),
            (0xAC, 0xA8, 0, HFUSE (TGTs ! find_target sg 0)),
            (0xAC, 0xA4, 0, EFUSE (TGTs ! find_target sg 0))])"
proof (intro conjI impI)
  show "fst (ICSP_enterProgMode e w) = (if echo = 0x53 then 1 else 0)"
    unfolding assms(3) by (rule ICSP_enterProgMode_fst)
  show "take 3 (instructions evs) = [(0xAC, 0x53, 0, 0), (0x30, 0, 1, 0), (0x30, 0, 2, 0)]"
  proof (cases "sg \<in> SIG ` set TGTs")
    case True
    then show ?thesis
      using instructions_session_supported [of e w, OF _ refl] unfolding assms(1,2) by auto
  next
    case False
    then have "fst (snd (identify e w)) \<notin> SIG ` set TGTs" by (simp add: assms(2))
    then have "session e w = w\<lparr>clock := clock w + 96, trace := trace w @ start_events @
        [Release, Print '' ERROR, NO SUPPORTED '', Print ''  DEVICE DETECTED !  '', Button]\<rparr>"
      by (rule session_unsupported)
    then show ?thesis
      unfolding assms(1) by (simp add: instructions_start)
  qed
next
  assume "sg \<notin> SIG ` set TGTs"
  then have "fst (snd (identify e w)) \<notin> SIG ` set TGTs" by (simp add: assms(2))
  then have "session e w = w\<lparr>clock := clock w + 96, trace := trace w @ start_events @
      [Release, Print '' ERROR, NO SUPPORTED '', Print ''  DEVICE DETECTED !  '', Button]\<rparr>"
    by (rule session_unsupported)
  then have "instructions evs = [(0xAC, 0x53, 0, 0), (0x30, 0, 1, 0), (0x30, 0, 2, 0)]"
    unfolding assms(1)
    by (simp add: instructions_start) (simp add: instructions_def)
  then show "\<forall>i \<in> set (instructions evs). \<not> writes_memory i"
    by (simp add: writes_memory_def)
next
  assume "sg \<in> SIG ` set TGTs"
  then have "fst (snd (identify e w)) \<in> SIG ` set TGTs" by (simp add: assms(2))
  from instructions_session_supported [OF this refl] obtain c "is" where
    "instructions evs =
     [(0xAC, 0x53, 0x00, 0x00), (0x30, 0x00, 0x01, 0x00), (0x30, 0x00, 0x02, 0x00)]
     @ program_instrs (TGTs ! find_target sg 0) c @ is"
    unfolding assms(1,2) by blast
  then show "take 5 (drop 3 (instructions evs)) =
           [(0x38, 0, 0, 0), (0xAC, 0x80, 0, 0),
            (0xAC, 0xA0, 0, LFUSE (TGTs ! find_target sg 0)),
            (0xAC, 0xA8, 0, HFUSE (TGTs ! find_target sg 0)),
            (0xAC, 0xA4, 0, EFUSE (TGTs ! find_target sg 0))]"
    by (simp add: program_instrs_def)
qed

theorem handshake_result_dropped_witness:
  "fst (ICSP_enterProgMode e_unentered w0) = 0
   \<and> fst (snd (identify e_unentered w0)) = 0x930C
   \<and> take 3 (instructions (trace (session e_unentered w0))) =
       [(0xAC, 0x53, 0, 0), (0x30, 0, 1, 0), (0x30, 0, 2, 0)]
   \<and> take 5 (drop 3 (instructions (trace (session e_unentered w0)))) =
       [(0x38, 0, 0, 0), (0xAC, 0x80, 0, 0), (0xAC, 0xA0, 0, 0x62), (0xAC, 0xA8, 0, 0xDF),
        (0xAC, 0xA4, 0, 0xFF)]"
proof -
  have evs: "trace (session e_unentered w0) =
      drop (length (trace w0)) (trace (session e_unentered w0))"
    by (simp add: w0_def)
  have sg: "0x930C = fst (snd (identify e_unentered w0))"
    by (simp add: identify_signature e_unentered_def sendByte_eval w0_def)
  have echo: "0 = ICSP_sendByte_loop 8 0 (miso e_unentered) (clock w0 + 16)"
    by (simp add: e_unentered_def sendByte_eval w0_def)
  have present: "(0x930C :: uint16_t) \<in> SIG ` set TGTs"
    by (simp add: TGTs_def)
  have T: "TGTs ! find_target 0x930C 0 = TGTs ! 6"
    by (simp add: find_target_unfold)
  from handshake_result_dropped [OF evs sg echo] present
  have "fst (ICSP_enterProgMode e_unentered w0) = (if (0 :: uint8_t) = 0x53 then 1 else 0)"
    and "take 3 (instructions (trace (session e_unentered w0))) =
       [(0xAC, 0x53, 0, 0), (0x30, 0, 1, 0), (0x30, 0, 2, 0)]"
    and "take 5 (drop 3 (instructions (trace (session e_unentered w0)))) =
           [(0x38, 0, 0, 0), (0xAC, 0x80, 0, 0),
            (0xAC, 0xA0, 0, LFUSE (TGTs ! find_target 0x930C 0)),
            (0xAC, 0xA8, 0, HFUSE (TGTs ! find_target 0x930C 0)),
            (0xAC, 0xA4, 0, EFUSE (TGTs ! find_target 0x930C 0))]"
    by blast+
  with sg show ?thesis
    by (simp add: T TGTs_6)
qed

text \<open>
  C7. When the signature read matches no entry of the table, the round closes the
  session (\<open>Release\<close>), shows the error message, waits for the button and ends. It has
  sent the enable command and the two read-signature instructions and nothing else:
  no chip erase, no fuse, flash or EEPROM write, and it has made no measurement.
\<close>

theorem unsupported_device_untouched:
  assumes "fst (snd (identify e w)) \<notin> SIG ` set TGTs"
    and "evs = drop (length (trace w)) (trace (session e w))"
  shows "evs =
      [Print ''PRESS BUTTON TO START'', Print ''  OSC CALIBRATION !  '', Button,
       Init, Tx 0xAC, Tx 0x53, Tx 0, Tx 0,
       Tx 0x30, Tx 0, Tx 1, Tx 0, Tx 0x30, Tx 0, Tx 2, Tx 0,
       Release, Print '' ERROR, NO SUPPORTED '', Print ''  DEVICE DETECTED !  '', Button]
    \<and> instructions evs = [(0xAC, 0x53, 0, 0), (0x30, 0, 1, 0), (0x30, 0, 2, 0)]
    \<and> (\<forall>i \<in> set (instructions evs). \<not> writes_memory i)
    \<and> gates (session e w) = gates w"
proof -
  have evs: "evs = start_events @
     [Release, Print '' ERROR, NO SUPPORTED '', Print ''  DEVICE DETECTED !  '', Button]"
    unfolding assms(2) session_unsupported [OF assms(1)] by simp
  then have ins: "instructions evs = [(0xAC, 0x53, 0, 0), (0x30, 0, 1, 0), (0x30, 0, 2, 0)]"
    by (simp add: instructions_start) (simp add: instructions_def)
  have "\<forall>i \<in> set (instructions evs). \<not> writes_memory i"
    unfolding ins by (simp add: writes_memory_def)
  moreover have "gates (session e w) = gates w"
    unfolding session_unsupported [OF assms(1)] by simp
  ultimately show ?thesis
    using evs ins by (simp add: start_events_def)
qed

theorem unsupported_device_untouched_witness:
  "fst (snd (identify e_exact w0)) = 0 \<and> (0 :: uint16_t) \<notin> SIG ` set TGTs
   \<and> instructions (trace (session e_exact w0)) =
       [(0xAC, 0x53, 0, 0), (0x30, 0, 1, 0), (0x30, 0, 2, 0)]
   \<and> gates (session e_exact w0) = 0"
proof -
  have sg: "fst (snd (identify e_exact w0)) = 0"
    by (simp add: identify_signature e_exact_def sendByte_eval)
  have absent: "(0 :: uint16_t) \<notin> SIG ` set TGTs"
    by (simp add: TGTs_def)
  then have h: "fst (snd (identify e_exact w0)) \<notin> SIG ` set TGTs"
    by (simp only: sg not_False_eq_True)
  have evs: "trace (session e_exact w0) = drop (length (trace w0)) (trace (session e_exact w0))"
    by (simp add: w0_def)
  from unsupported_device_untouched [OF h evs]
  have "instructions (trace (session e_exact w0)) =
       [(0xAC, 0x53, 0, 0), (0x30, 0, 1, 0), (0x30, 0, 2, 0)]"
    and "gates (session e_exact w0) = gates w0"
    by blast+
  with sg absent show ?thesis
    by (simp add: w0_def)
qed

section \<open>Programming the flash\<close>

text \<open>
  C4. \<open>ICSP_writeFlash\<close> programs the image as 16-bit words at the addresses
  \<open>0, 1, 2, \<dots>\<close>: for each word it sends the load instruction of the low and of the high
  byte; after every \<open>ps\<close> words it sends a page-commit for the page just filled, and when
  the number of words \<open>n\<close> is not a multiple of the page size \<open>ps\<close> it sends exactly one
  more page-commit after the loop, so that the instructions sent are \<open>flash_instrs\<close>.
  This holds for every target of the table, and for every other descriptor with a page
  size that is a power of two and a program that is not empty, whether its length is a
  multiple of the page size or not. Every word of the image is loaded and, later, a
  page-commit with an address in the page of that word is sent (the two address bytes
  of an instruction are the high and the low byte of the address); the number of
  page-commits is the number of full pages, plus one if the last page is partly filled;
  and for the targets of the table every byte read lies inside the image.
\<close>

theorem writeFlash_commits_every_page:
  assumes T: "T \<in> set TGTs \<or> (\<exists>k. unat (PSIZE T) = 2 ^ k) \<and> PROG_LENGTH T \<noteq> 0"
    and n: "n = (unat (PROG_LENGTH T) + 1) div 2"
    and ps: "ps = unat (PSIZE T)"
    and ins: "ins = instructions (drop (length (trace w)) (trace (ICSP_writeFlash e T w)))"
  shows "ins = flash_instrs ps (PROG T) n
    \<and> (\<forall>a<n. \<exists>pre post b. ins = pre @ post
          \<and> (0x40, hi8 (of_nat a), lo8 (of_nat a), pgm_read_byte (PROG T) (2 * a)) \<in> set pre
          \<and> (0x48, hi8 (of_nat a), lo8 (of_nat a), pgm_read_byte (PROG T) (2 * a + 1)) \<in> set pre
          \<and> commit_instr b \<in> set post \<and> b \<le> n \<and> b div ps = a div ps)
    \<and> length (filter is_commit ins) = n div ps + (if n mod ps = 0 then 0 else 1)
    \<and> (n mod ps \<noteq> 0 \<longrightarrow> last ins = commit_instr n)
    \<and> (\<forall>b\<le>n. 256 * unat (hi8 (of_nat b)) + unat (lo8 (of_nat b)) = b)
    \<and> (T \<in> set TGTs \<longrightarrow> 2 * n \<le> length (PROG T))"
proof -
  from T obtain k where k: "unat (PSIZE T) = 2 ^ k" and len: "PROG_LENGTH T \<noteq> 0"
    by (rule flashable)
  have "trace (ICSP_writeFlash e T w) = trace w @ concat (map tx_of (flash_instrs ps (PROG T) n))"
    unfolding ICSP_writeFlash_send [OF k len] n ps k by (rule trace_send)
  then have eq: "ins = flash_instrs ps (PROG T) n"
    unfolding ins by (simp add: instructions_tx_of')
  have pos: "0 < ps" unfolding ps k by simp
  have cover: "\<forall>a<n. \<exists>pre post b. ins = pre @ post
          \<and> (0x40, hi8 (of_nat a), lo8 (of_nat a), pgm_read_byte (PROG T) (2 * a)) \<in> set pre
          \<and> (0x48, hi8 (of_nat a), lo8 (of_nat a), pgm_read_byte (PROG T) (2 * a + 1)) \<in> set pre
          \<and> commit_instr b \<in> set post \<and> b \<le> n \<and> b div ps = a div ps"
    unfolding eq using flash_instrs_covers [OF pos] by blast
  have count: "length (filter is_commit ins) = n div ps + (if n mod ps = 0 then 0 else 1)"
    unfolding eq by (rule commits_in_flash)
  have final: "n mod ps \<noteq> 0 \<longrightarrow> last ins = commit_instr n"
    unfolding eq by (simp add: flash_instrs_def)
  have inside: "T \<in> set TGTs \<longrightarrow> 2 * n \<le> length (PROG T)"
    unfolding n using TGTs_reads_in_image [of T] by blast
  have "n < 65536"
    unfolding n using unat8_less [of "PROG_LENGTH T"] by simp
  then have bytes: "\<forall>b\<le>n. 256 * unat (hi8 (of_nat b)) + unat (lo8 (of_nat b)) = b"
    by (simp add: address_bytes)
  from eq cover count final bytes inside show ?thesis by blast
qed

theorem writeFlash_commits_every_page_witness:
  "TGTs ! 0 \<in> set TGTs
   \<and> (unat (PROG_LENGTH (TGTs ! 0)) + 1) div 2 = 36 \<and> unat (PSIZE (TGTs ! 0)) = 16
   \<and> length (filter is_commit (instructions (trace (ICSP_writeFlash e_exact (TGTs ! 0) w0)))) = 3
   \<and> last (instructions (trace (ICSP_writeFlash e_exact (TGTs ! 0) w0))) = commit_instr 36
   \<and> length (filter is_commit (instructions (trace
        (ICSP_writeFlash e_exact ((TGTs ! 6)\<lparr>PROG_LENGTH := 64\<rparr>) w0)))) = 1"
proof -
  have m: "TGTs ! 0 \<in> set TGTs" by (simp add: TGTs_def)
  then have T: "TGTs ! 0 \<in> set TGTs
      \<or> (\<exists>k. unat (PSIZE (TGTs ! 0)) = 2 ^ k) \<and> PROG_LENGTH (TGTs ! 0) \<noteq> 0"
    by (rule disjI1)
  have n: "(36::nat) = (unat (PROG_LENGTH (TGTs ! 0)) + 1) div 2"
    and ps: "(16::nat) = unat (PSIZE (TGTs ! 0))"
    by (simp_all add: TGTs_def)
  have ins: "instructions (trace (ICSP_writeFlash e_exact (TGTs ! 0) w0)) =
      instructions (drop (length (trace w0)) (trace (ICSP_writeFlash e_exact (TGTs ! 0) w0)))"
    by (simp add: w0_def)
  have "unat (PSIZE ((TGTs ! 6)\<lparr>PROG_LENGTH := 64\<rparr>)) = 2 ^ 5"
    by (simp add: TGTs_6)
  then have T': "(TGTs ! 6)\<lparr>PROG_LENGTH := 64\<rparr> \<in> set TGTs
      \<or> (\<exists>k. unat (PSIZE ((TGTs ! 6)\<lparr>PROG_LENGTH := 64\<rparr>)) = 2 ^ k)
          \<and> PROG_LENGTH ((TGTs ! 6)\<lparr>PROG_LENGTH := 64\<rparr>) \<noteq> 0"
    by (intro disjI2 conjI exI [of _ 5]) simp_all
  have n': "(32::nat) = (unat (PROG_LENGTH ((TGTs ! 6)\<lparr>PROG_LENGTH := 64\<rparr>)) + 1) div 2"
    and ps': "(32::nat) = unat (PSIZE ((TGTs ! 6)\<lparr>PROG_LENGTH := 64\<rparr>))"
    by (simp_all add: TGTs_6)
  have ins': "instructions (trace (ICSP_writeFlash e_exact ((TGTs ! 6)\<lparr>PROG_LENGTH := 64\<rparr>) w0)) =
      instructions (drop (length (trace w0))
        (trace (ICSP_writeFlash e_exact ((TGTs ! 6)\<lparr>PROG_LENGTH := 64\<rparr>) w0)))"
    by (simp add: w0_def)
  from writeFlash_commits_every_page [OF T n ps ins]
  have "length (filter is_commit (instructions (trace (ICSP_writeFlash e_exact (TGTs ! 0) w0))))
      = 36 div 16 + (if (36::nat) mod 16 = 0 then 0 else 1)"
    and "(36::nat) mod 16 \<noteq> 0 \<longrightarrow>
      last (instructions (trace (ICSP_writeFlash e_exact (TGTs ! 0) w0))) = commit_instr 36"
    by blast+
  then have first: "length (filter is_commit
        (instructions (trace (ICSP_writeFlash e_exact (TGTs ! 0) w0)))) = 3"
      "last (instructions (trace (ICSP_writeFlash e_exact (TGTs ! 0) w0))) = commit_instr 36"
    by simp_all
  from writeFlash_commits_every_page [OF T' n' ps' ins']
  have "length (filter is_commit (instructions (trace
        (ICSP_writeFlash e_exact ((TGTs ! 6)\<lparr>PROG_LENGTH := 64\<rparr>) w0))))
      = 32 div 32 + (if (32::nat) mod 32 = 0 then 0 else 1)"
    by blast
  then have second: "length (filter is_commit (instructions (trace
        (ICSP_writeFlash e_exact ((TGTs ! 6)\<lparr>PROG_LENGTH := 64\<rparr>) w0)))) = 1"
    by simp
  from m n ps first second show ?thesis by simp
qed

section \<open>The calibration process\<close>

text \<open>
  C2. Take a target whose frequency is a monotonically decreasing function \<open>g\<close> of the
  calibration byte, so that every frequency measured in the calibration process is \<open>g\<close>
  of the byte measured. The process ends (the loop is a total function, and it makes at
  least one and at most 65536 measurements), and \<open>lastcalib\<close>,
  the byte that the lines after the loop write to EEPROM address 0, is one of the bytes
  measured and has the least deviation \<open>|g c - FREQ|\<close> of all bytes measured. The last
  instruction of the process is that write of \<open>lastcalib\<close>, whatever byte the loop wrote
  last. In every round of the loop the recorded best either stays as it is or is replaced
  by the current byte with a strictly smaller deviation.

  The deviation is the absolute difference of the integers: \<open>diff a b\<close> read as an
  integer is \<open>|a - b|\<close> for all 16-bit values, so the minimum is one of
  \<open>|g c - FREQ|\<close> over the integers, and \<open>difference\<close> at the end is that
  least value. A round that keeps the recorded best does so because the deviation of the
  frequency it measured is not below \<open>difference\<close>; a round that replaces it sets
  \<open>difference\<close> to the deviation of the frequency it measured.
\<close>

theorem calibration_commits_best:
  fixes g :: "uint8_t \<Rightarrow> uint16_t"
  assumes mono: "\<forall>a b. a \<le> b \<longrightarrow> g b \<le> g a"
    and target: "\<forall>(c', f) \<in> set (measured (calibration_process e T c w)). f = g c'"
    and s: "s = calibration_process e T c w"
  shows "0 < length (measured s) \<and> length (measured s) \<le> 65536
    \<and> lastcalib s \<in> fst ` set (measured s)
    \<and> (\<forall>c' \<in> fst ` set (measured s).
          diff (g (lastcalib s)) (FREQ T) \<le> diff (g c') (FREQ T))
    \<and> trace (write_result e s) = trace (wld s) @
         [Init, Tx 0xAC, Tx 0x53, Tx 0, Tx 0, Tx 0xC0, Tx 0, Tx 0, Tx (lastcalib s), Release,
          Print ''CALIBRATION COMPLETE!'', Print ''VCC  OSCCAL FREQUENCY'', Button]
    \<and> (\<forall>s1. (lastcalib (after (calibration_step e T s1)) = lastcalib s1
              \<and> difference (after (calibration_step e T s1)) = difference s1)
           \<or> (lastcalib (after (calibration_step e T s1)) = calib s1
              \<and> difference (after (calibration_step e T s1)) < difference s1))
    \<and> (\<forall>a b. uint (diff a b) = \<bar>uint a - uint b\<bar>)
    \<and> (\<forall>c' \<in> fst ` set (measured s).
          \<bar>uint (g (lastcalib s)) - uint (FREQ T)\<bar> \<le> \<bar>uint (g c') - uint (FREQ T)\<bar>)
    \<and> uint (difference s) = \<bar>uint (g (lastcalib s)) - uint (FREQ T)\<bar>
    \<and> (\<forall>s1. (lastcalib (after (calibration_step e T s1)) = lastcalib s1
              \<and> difference (after (calibration_step e T s1)) = difference s1
              \<and> uint (difference s1)
                  \<le> \<bar>uint (fst (FRQ_measure e (wld s1))) - uint (FREQ T)\<bar>)
           \<or> (lastcalib (after (calibration_step e T s1)) = calib s1
              \<and> uint (difference (after (calibration_step e T s1)))
                  = \<bar>uint (fst (FRQ_measure e (wld s1))) - uint (FREQ T)\<bar>
              \<and> difference (after (calibration_step e T s1)) < difference s1))"
proof (intro conjI)
  have abs: "uint (diff a b) = \<bar>uint a - uint b\<bar>" for a b
  proof (cases "a > b")
    case True
    then have le: "uint b \<le> uint a" by (simp add: word_less_def)
    then have "uint (a - b) = uint a - uint b" by (simp add: uint_sub_lem)
    with True le show ?thesis by (simp add: diff_def)
  next
    case False
    then have le: "uint a \<le> uint b" by (simp add: word_le_def not_less)
    then have "uint (b - a) = uint b - uint a" by (simp add: uint_sub_lem)
    with False le show ?thesis by (simp add: diff_def)
  qed
  show "0 < length (measured s)" "length (measured s) \<le> 65536"
    using calibration_loop_count
      [of e T "\<lparr>calib = c, lastcalib = c, difference = 65535, measured = [], wld = w\<rparr>"]
    unfolding s calibration_process_def by simp_all
  obtain f where f: "(lastcalib s, f) \<in> set (measured s)"
    and le: "\<forall>(c', f') \<in> set (measured s). diff f (FREQ T) \<le> diff f' (FREQ T)"
    using calibration_process_best [of e T c w] s by blast
  from f show "lastcalib s \<in> fst ` set (measured s)" by force
  from f target s have fg: "f = g (lastcalib s)" by blast
  show min: "\<forall>c' \<in> fst ` set (measured s). diff (g (lastcalib s)) (FREQ T) \<le> diff (g c') (FREQ T)"
  proof
    fix c' assume "c' \<in> fst ` set (measured s)"
    then obtain f' where f': "(c', f') \<in> set (measured s)" by force
    with target s have "f' = g c'" by blast
    with le f' fg show "diff (g (lastcalib s)) (FREQ T) \<le> diff (g c') (FREQ T)" by blast
  qed
  show "trace (write_result e s) = trace (wld s) @
         [Init, Tx 0xAC, Tx 0x53, Tx 0, Tx 0, Tx 0xC0, Tx 0, Tx 0, Tx (lastcalib s), Release,
          Print ''CALIBRATION COMPLETE!'', Print ''VCC  OSCCAL FREQUENCY'', Button]"
    by (simp add: write_result_eq)
  show "\<forall>s1. (lastcalib (after (calibration_step e T s1)) = lastcalib s1
              \<and> difference (after (calibration_step e T s1)) = difference s1)
           \<or> (lastcalib (after (calibration_step e T s1)) = calib s1
              \<and> difference (after (calibration_step e T s1)) < difference s1)"
    using calibration_step_best [of e T] by blast
  show "\<forall>a b. uint (diff a b) = \<bar>uint a - uint b\<bar>"
    by (simp add: abs)
  show "\<forall>c' \<in> fst ` set (measured s).
          \<bar>uint (g (lastcalib s)) - uint (FREQ T)\<bar> \<le> \<bar>uint (g c') - uint (FREQ T)\<bar>"
    using min by (simp add: word_le_def abs)
  obtain f' where f': "(lastcalib s, f') \<in> set (measured s)"
    and d: "diff f' (FREQ T) = difference s"
    using calibration_process_recorded [of e T c w] s by blast
  from f' target s have "f' = g (lastcalib s)" by blast
  with d have "difference s = diff (g (lastcalib s)) (FREQ T)" by simp
  then show "uint (difference s) = \<bar>uint (g (lastcalib s)) - uint (FREQ T)\<bar>"
    by (simp only: abs)
  show "\<forall>s1. (lastcalib (after (calibration_step e T s1)) = lastcalib s1
              \<and> difference (after (calibration_step e T s1)) = difference s1
              \<and> uint (difference s1)
                  \<le> \<bar>uint (fst (FRQ_measure e (wld s1))) - uint (FREQ T)\<bar>)
           \<or> (lastcalib (after (calibration_step e T s1)) = calib s1
              \<and> uint (difference (after (calibration_step e T s1)))
                  = \<bar>uint (fst (FRQ_measure e (wld s1))) - uint (FREQ T)\<bar>
              \<and> difference (after (calibration_step e T s1)) < difference s1)"
  proof
    fix s1
    from calibration_step_best [of e T s1] show
      "(lastcalib (after (calibration_step e T s1)) = lastcalib s1
              \<and> difference (after (calibration_step e T s1)) = difference s1
              \<and> uint (difference s1)
                  \<le> \<bar>uint (fst (FRQ_measure e (wld s1))) - uint (FREQ T)\<bar>)
           \<or> (lastcalib (after (calibration_step e T s1)) = calib s1
              \<and> uint (difference (after (calibration_step e T s1)))
                  = \<bar>uint (fst (FRQ_measure e (wld s1))) - uint (FREQ T)\<bar>
              \<and> difference (after (calibration_step e T s1)) < difference s1)"
      by (auto simp: word_le_def abs)
  qed
qed

theorem calibration_commits_best_witness:
  "lastcalib (calibration_process e_overshoot (TGTs ! 6) 128 w0) = 128
   \<and> calib (calibration_process e_overshoot (TGTs ! 6) 128 w0) = 127
   \<and> measured (calibration_process e_overshoot (TGTs ! 6) 128 w0) = [(128, 8010), (127, 8011)]
   \<and> g_linear 128 = 8010 \<and> g_linear 127 = 8011
   \<and> diff (g_linear 128) (FREQ (TGTs ! 6)) \<le> diff (g_linear 127) (FREQ (TGTs ! 6))
   \<and> trace (write_result e_overshoot (calibration_process e_overshoot (TGTs ! 6) 128 w0)) =
       [PrintHex 128, PrintDec 8010, Init, Tx 0xAC, Tx 0x53, Tx 0, Tx 0,
        Tx 0xC0, Tx 0, Tx 0, Tx 127, Release,
        Init, Tx 0xAC, Tx 0x53, Tx 0, Tx 0, Tx 0xC0, Tx 0, Tx 0, Tx 128, Release,
        Print ''CALIBRATION COMPLETE!'', Print ''VCC  OSCCAL FREQUENCY'', Button]
   \<and> uint (diff (8010 :: uint16_t) 8000) = 10 \<and> uint (diff (8000 :: uint16_t) 8011) = 11
   \<and> \<bar>uint (g_linear 128) - uint (FREQ (TGTs ! 6))\<bar> = 10
   \<and> \<bar>uint (g_linear 127) - uint (FREQ (TGTs ! 6))\<bar> = 11
   \<and> \<bar>uint (g_linear 128) - uint (FREQ (TGTs ! 6))\<bar>
       \<le> \<bar>uint (g_linear 127) - uint (FREQ (TGTs ! 6))\<bar>
   \<and> uint (difference (calibration_process e_overshoot (TGTs ! 6) 128 w0)) = 10"
proof -
  let ?run = "calibration_process e_overshoot (TGTs ! 6) 128 w0"
  have mono: "\<forall>a b. a \<le> b \<longrightarrow> g_linear b \<le> g_linear a"
    using g_linear_decreasing by blast
  have g: "g_linear 128 = 8010" "g_linear 127 = 8011"
    by (simp_all add: g_linear_def)
  have target: "\<forall>(c', f) \<in> set (measured ?run). f = g_linear c'"
    by (simp add: overshoot_run g)
  have "(127 :: uint8_t) \<in> fst ` set (measured ?run)"
    by (simp add: overshoot_run)
  with calibration_commits_best [OF mono target refl]
  have "diff (g_linear (lastcalib ?run)) (FREQ (TGTs ! 6)) \<le> diff (g_linear 127) (FREQ (TGTs ! 6))"
    and "trace (write_result e_overshoot ?run) = trace (wld ?run) @
         [Init, Tx 0xAC, Tx 0x53, Tx 0, Tx 0, Tx 0xC0, Tx 0, Tx 0, Tx (lastcalib ?run), Release,
          Print ''CALIBRATION COMPLETE!'', Print ''VCC  OSCCAL FREQUENCY'', Button]"
    and "uint (diff (8010 :: uint16_t) 8000) = \<bar>uint (8010 :: uint16_t) - uint (8000 :: uint16_t)\<bar>"
    and "uint (diff (8000 :: uint16_t) 8011) = \<bar>uint (8000 :: uint16_t) - uint (8011 :: uint16_t)\<bar>"
    and "\<bar>uint (g_linear (lastcalib ?run)) - uint (FREQ (TGTs ! 6))\<bar>
       \<le> \<bar>uint (g_linear 127) - uint (FREQ (TGTs ! 6))\<bar>"
    and "uint (difference ?run) = \<bar>uint (g_linear (lastcalib ?run)) - uint (FREQ (TGTs ! 6))\<bar>"
    by blast+
  then have run: "diff (g_linear 128) (FREQ (TGTs ! 6)) \<le> diff (g_linear 127) (FREQ (TGTs ! 6))"
    "trace (write_result e_overshoot ?run) =
       [PrintHex 128, PrintDec 8010, Init, Tx 0xAC, Tx 0x53, Tx 0, Tx 0,
        Tx 0xC0, Tx 0, Tx 0, Tx 127, Release,
        Init, Tx 0xAC, Tx 0x53, Tx 0, Tx 0, Tx 0xC0, Tx 0, Tx 0, Tx 128, Release,
        Print ''CALIBRATION COMPLETE!'', Print ''VCC  OSCCAL FREQUENCY'', Button]"
    "uint (diff (8010 :: uint16_t) 8000) = 10"
    "uint (diff (8000 :: uint16_t) 8011) = 11"
    "\<bar>uint (g_linear 128) - uint (FREQ (TGTs ! 6))\<bar>
       \<le> \<bar>uint (g_linear 127) - uint (FREQ (TGTs ! 6))\<bar>"
    "uint (difference ?run) = \<bar>uint (g_linear 128) - uint (FREQ (TGTs ! 6))\<bar>"
    by (simp_all add: overshoot_run)
  have abs: "\<bar>uint (g_linear 128) - uint (FREQ (TGTs ! 6))\<bar> = 10"
    "\<bar>uint (g_linear 127) - uint (FREQ (TGTs ! 6))\<bar> = 11"
    by (simp_all add: g TGTs_6)
  from run(6) abs(1) have d: "uint (difference ?run) = 10" by simp
  have m: "lastcalib ?run = 128" "calib ?run = 127"
    "measured ?run = [(128, 8010), (127, 8011)]"
    by (simp_all add: overshoot_run)
  from m g run(1,2,3,4,5) abs d show ?thesis
    by (intro conjI)
qed

text \<open>
  C10. The loop ends for every sequence of measured frequencies: a round either leaves
  the loop or strictly decreases \<open>difference\<close>, a 16-bit value that starts at 65535. A
  calibration process therefore makes at most 65536 measurements, one for each gate of the
  counter that it uses.
\<close>

theorem calibration_terminates:
  "length (measured (calibration_process e T c w)) \<le> 65536
   \<and> gates (wld (calibration_process e T c w))
       = gates w + length (measured (calibration_process e T c w))
   \<and> (\<forall>s. is_Break (calibration_step e T s)
          \<or> difference (after (calibration_step e T s)) < difference s)"
proof (intro conjI allI)
  let ?init = "\<lparr>calib = c, lastcalib = c, difference = 65535, measured = [], wld = w\<rparr>"
  show "length (measured (calibration_process e T c w)) \<le> 65536"
    using calibration_loop_count [of e T ?init] by (simp add: calibration_process_def)
  show "gates (wld (calibration_process e T c w))
       = gates w + length (measured (calibration_process e T c w))"
    using calibration_loop_count [of e T ?init] by (simp add: calibration_process_def)
next
  fix s
  show "is_Break (calibration_step e T s)
          \<or> difference (after (calibration_step e T s)) < difference s"
  proof (cases "calibration_step e T s")
    case (Break s')
    then show ?thesis by simp
  next
    case (Continue s')
    then show ?thesis using calibration_step_decreases [of e T s s'] by simp
  qed
qed

theorem calibration_terminates_witness:
  "calibration_step e_overshoot (TGTs ! 6)
      \<lparr>calib = 128, lastcalib = 128, difference = 65535, measured = [], wld = w0\<rparr>
    = Continue \<lparr>calib = 127, lastcalib = 128, difference = 10, measured = [(128, 8010)],
        wld = \<lparr>clock = 64, gates = 1,
          trace = [PrintHex 128, PrintDec 8010, Init, Tx 0xAC, Tx 0x53, Tx 0, Tx 0,
                   Tx 0xC0, Tx 0, Tx 0, Tx 127, Release]\<rparr>\<rparr>
   \<and> (10 :: uint16_t) < 65535
   \<and> length (measured (calibration_process e_overshoot (TGTs ! 6) 128 w0)) = 2"
proof -
  let ?init = "\<lparr>calib = 128, lastcalib = 128, difference = 65535, measured = [], wld = w0\<rparr>"
  have step: "calibration_step e_overshoot (TGTs ! 6) ?init
    = Continue \<lparr>calib = 127, lastcalib = 128, difference = 10, measured = [(128, 8010)],
        wld = \<lparr>clock = 64, gates = 1,
          trace = [PrintHex 128, PrintDec 8010, Init, Tx 0xAC, Tx 0x53, Tx 0, Tx 0,
                   Tx 0xC0, Tx 0, Tx 0, Tx 127, Release]\<rparr>\<rparr>"
    by (simp add: calibration_step_def
      split_def Let_def FRQ_measure_def FRQ_count_def diff_def next_calib_def
      print_results_eq ICSP_enterProgMode_snd ICSP_writeEEPROM_eq ICSP_exitProgMode_eq
      e_overshoot_def w0_def TGTs_6)
  from calibration_terminates [of e_overshoot "TGTs ! 6" 128 w0]
  have "is_Break (calibration_step e_overshoot (TGTs ! 6) ?init)
      \<or> difference (after (calibration_step e_overshoot (TGTs ! 6) ?init)) < difference ?init"
    by blast
  with step have "(10 :: uint16_t) < 65535" by simp
  with step show ?thesis by (simp add: overshoot_run)
qed

text \<open>
  C8. If the first measurement of a calibration process gives exactly the nominal
  frequency of the target, it is the only measurement: the loop ends after it without
  sending anything to the target, and the lines after the loop write the first
  calibration byte to EEPROM address 0.
\<close>

theorem exact_first_trial:
  assumes "fst (FRQ_measure e w) = FREQ T"
    and "s = calibration_process e T c w"
  shows "measured s = [(c, FREQ T)]
    \<and> gates (wld s) = gates w + 1
    \<and> clock (wld s) = clock w
    \<and> trace (wld s) = trace w @ [PrintHex c, PrintDec (FREQ T)]
    \<and> lastcalib s = c \<and> calib s = c \<and> difference s = 0
    \<and> trace (write_result e s) = trace w @
         [PrintHex c, PrintDec (FREQ T),
          Init, Tx 0xAC, Tx 0x53, Tx 0, Tx 0, Tx 0xC0, Tx 0, Tx 0, Tx c, Release,
          Print ''CALIBRATION COMPLETE!'', Print ''VCC  OSCCAL FREQUENCY'', Button]"
proof -
  let ?init = "\<lparr>calib = c, lastcalib = c, difference = 65535, measured = [], wld = w\<rparr>"
  have d: "diff (fst (FRQ_measure e (wld ?init))) (FREQ T) = 0"
    using assms(1) by (simp add: diff_def)
  then have "\<not> diff (fst (FRQ_measure e (wld ?init))) (FREQ T) \<ge> difference ?init"
    by simp
  from calibration_step_exact [OF this d]
  have "s = ?init\<lparr>lastcalib := c, difference := 0, measured := [(c, FREQ T)],
      wld := w\<lparr>gates := gates w + 1, trace := trace w @ [PrintHex c, PrintDec (FREQ T)]\<rparr>\<rparr>"
    using assms by (simp add: calibration_process_def calibration_loop_Break)
  then show ?thesis
    by (simp add: write_result_eq)
qed

theorem exact_first_trial_witness:
  "fst (FRQ_measure e_exact w0) = FREQ (TGTs ! 6)
   \<and> measured (calibration_process e_exact (TGTs ! 6) 128 w0) = [(128, 8000)]
   \<and> trace (write_result e_exact (calibration_process e_exact (TGTs ! 6) 128 w0)) =
       [PrintHex 128, PrintDec 8000,
        Init, Tx 0xAC, Tx 0x53, Tx 0, Tx 0, Tx 0xC0, Tx 0, Tx 0, Tx 128, Release,
        Print ''CALIBRATION COMPLETE!'', Print ''VCC  OSCCAL FREQUENCY'', Button]"
proof -
  have h: "fst (FRQ_measure e_exact w0) = FREQ (TGTs ! 6)"
    by (simp add: FRQ_measure_fst FRQ_count_def e_exact_def TGTs_6)
  from exact_first_trial [OF h refl, where c = 128] h show ?thesis
    by (simp add: TGTs_6 w0_def)
qed

text \<open>
  C9. The calibration process is the loop started with \<open>difference\<close> at 65535.
  \<open>FRQ_measure\<close> returns less than 32768 and the nominal frequency of every target of
  the table is 8000 or 9600, so the first deviation is below 65535: the first round of
  the process measures the calibration byte read from the target, shows it with its
  frequency, and records it as the best with its deviation, and what the process has
  recorded at its end is at most that first deviation. The process ends after this one
  measurement only if the first frequency is the nominal one, with the first byte
  recorded and a deviation of 0; otherwise it goes on as the loop started from the state
  in which the first byte and its deviation are the recorded best and the next byte has
  been written to the target.
\<close>

theorem first_measurement_accepted:
  assumes T: "T \<in> set TGTs"
    and s: "s = calibration_process e T c w"
    and f: "f = fst (FRQ_measure e w)"
  shows "s = calibration_loop e T
               \<lparr>calib = c, lastcalib = c, difference = 65535, measured = [], wld = w\<rparr>
    \<and> diff f (FREQ T) < 65535
    \<and> hd (measured s) = (c, f)
    \<and> take 2 (drop (length (trace w)) (trace (wld s))) = [PrintHex c, PrintDec f]
    \<and> difference s \<le> diff f (FREQ T)
    \<and> difference s < 65535
    \<and> (length (measured s) = 1 \<longleftrightarrow> f = FREQ T)
    \<and> (f = FREQ T \<longrightarrow> lastcalib s = c \<and> difference s = 0 \<and> measured s = [(c, f)])
    \<and> (f \<noteq> FREQ T \<longrightarrow>
         s = calibration_loop e T
               \<lparr>calib = next_calib f (FREQ T) c, lastcalib = c,
                difference = diff f (FREQ T), measured = [(c, f)],
                wld = w\<lparr>clock := clock w + 64, gates := gates w + 1,
                  trace := trace w @
                    [PrintHex c, PrintDec f, Init, Tx 0xAC, Tx 0x53, Tx 0, Tx 0,
                     Tx 0xC0, Tx 0, Tx 0, Tx (next_calib f (FREQ T) c), Release]\<rparr>\<rparr>)"
proof -
  let ?init = "\<lparr>calib = c, lastcalib = c, difference = 65535, measured = [], wld = w\<rparr>"
  let ?next = "\<lparr>calib = next_calib f (FREQ T) c, lastcalib = c,
                difference = diff f (FREQ T), measured = [(c, f)],
                wld = w\<lparr>clock := clock w + 64, gates := gates w + 1,
                  trace := trace w @
                    [PrintHex c, PrintDec f, Init, Tx 0xAC, Tx 0x53, Tx 0, Tx 0,
                     Tx 0xC0, Tx 0, Tx 0, Tx (next_calib f (FREQ T) c), Release]\<rparr>\<rparr>"
  have seed: "s = calibration_loop e T ?init"
    unfolding s by (simp add: calibration_process_def)
  have "f < 32768"
    unfolding f by (simp add: FRQ_measure_fst FRQ_count_less)
  moreover have "FREQ T < 32768"
    using TGTs_FREQ [OF T] by auto
  ultimately have less: "diff f (FREQ T) < 65535"
    by (rule diff_less_seed)
  then have acc: "\<not> diff (fst (FRQ_measure e (wld ?init))) (FREQ T) \<ge> difference ?init"
    by (simp add: not_le f)
  have zero: "diff f (FREQ T) = 0 \<longleftrightarrow> f = FREQ T"
    by (auto simp: diff_def)
  show ?thesis
  proof (cases "f = FREQ T")
    case True
    with zero have "diff (fst (FRQ_measure e (wld ?init))) (FREQ T) = 0" by (simp add: f)
    from calibration_step_exact [OF acc this]
    have "s = ?init\<lparr>lastcalib := c, difference := 0, measured := [(c, f)],
        wld := w\<lparr>gates := gates w + 1, trace := trace w @ [PrintHex c, PrintDec f]\<rparr>\<rparr>"
      unfolding seed by (simp add: calibration_loop_Break f)
    then have "hd (measured s) = (c, f)"
      and "take 2 (drop (length (trace w)) (trace (wld s))) = [PrintHex c, PrintDec f]"
      and "difference s = 0" and "lastcalib s = c" and "measured s = [(c, f)]"
      by simp_all
    with True less zero seed show ?thesis by simp
  next
    case False
    with zero have "diff (fst (FRQ_measure e (wld ?init))) (FREQ T) \<noteq> 0" by (simp add: f)
    from calibration_step_accepted [OF acc this]
    have "calibration_step e T ?init = Continue ?next" by (simp add: f)
    then have eq: "s = calibration_loop e T ?next"
      unfolding seed by (rule calibration_loop_Continue)
    obtain ms where ms: "measured s = [(c, f)] @ ms"
      using calibration_loop_measured [of e T ?next] unfolding eq by auto
    then have h: "hd (measured s) = (c, f)" by simp
    have "length (measured ?next) < length (measured s)"
      using calibration_loop_count [of e T ?next] unfolding eq by blast
    then have len: "length (measured s) \<noteq> 1" by simp
    obtain evs where evs: "trace (wld s) = trace (wld ?next) @ evs"
      using calibration_loop_trace [of e T ?next] unfolding eq by blast
    have d: "difference s \<le> diff f (FREQ T)"
      using calibration_loop_difference [of e T ?next] unfolding eq by simp
    with less have d': "difference s < 65535" by simp
    have tr: "take 2 (drop (length (trace w)) (trace (wld s))) = [PrintHex c, PrintDec f]"
      unfolding evs by simp
    from seed less h tr d d' len False eq show ?thesis by blast
  qed
qed

theorem first_measurement_accepted_witness:
  "TGTs ! 6 \<in> set TGTs
   \<and> fst (FRQ_measure e_overshoot w0) = 8010
   \<and> diff 8010 (FREQ (TGTs ! 6)) = 10
   \<and> (10 :: uint16_t) < 65535
   \<and> hd (measured (calibration_process e_overshoot (TGTs ! 6) 128 w0)) = (128, 8010)
   \<and> difference (calibration_process e_overshoot (TGTs ! 6) 128 w0) \<le> 10
   \<and> length (measured (calibration_process e_overshoot (TGTs ! 6) 128 w0)) \<noteq> 1
   \<and> calibration_process e_overshoot (TGTs ! 6) 128 w0 =
       calibration_loop e_overshoot (TGTs ! 6)
         \<lparr>calib = 127, lastcalib = 128, difference = 10, measured = [(128, 8010)],
          wld = \<lparr>clock = 64, gates = 1,
            trace = [PrintHex 128, PrintDec 8010, Init, Tx 0xAC, Tx 0x53, Tx 0, Tx 0,
                     Tx 0xC0, Tx 0, Tx 0, Tx 127, Release]\<rparr>\<rparr>
   \<and> fst (FRQ_measure e_exact w0) = FREQ (TGTs ! 6)
   \<and> lastcalib (calibration_process e_exact (TGTs ! 6) 128 w0) = 128
   \<and> difference (calibration_process e_exact (TGTs ! 6) 128 w0) = 0
   \<and> measured (calibration_process e_exact (TGTs ! 6) 128 w0) = [(128, 8000)]"
proof -
  have m: "TGTs ! 6 \<in> set TGTs" by (simp add: TGTs_def)
  have f: "8010 = fst (FRQ_measure e_overshoot w0)"
    by (simp add: FRQ_measure_fst FRQ_count_def e_overshoot_def w0_def)
  have d: "diff 8010 (FREQ (TGTs ! 6)) = 10"
    by (simp add: TGTs_6 diff_def)
  have ne: "(8010 :: uint16_t) \<noteq> FREQ (TGTs ! 6)"
    by (simp add: TGTs_6)
  have n: "next_calib 8010 (FREQ (TGTs ! 6)) 128 = 127"
    by (simp add: TGTs_6 next_calib_def)
  have f': "8000 = fst (FRQ_measure e_exact w0)"
    by (simp add: FRQ_measure_fst FRQ_count_def e_exact_def w0_def)
  have eq: "(8000 :: uint16_t) = FREQ (TGTs ! 6)"
    by (simp add: TGTs_6)
  from first_measurement_accepted [OF m refl f, where c = 128] ne
  have "hd (measured (calibration_process e_overshoot (TGTs ! 6) 128 w0)) = (128, 8010)"
    and "difference (calibration_process e_overshoot (TGTs ! 6) 128 w0)
          \<le> diff 8010 (FREQ (TGTs ! 6))"
    and "length (measured (calibration_process e_overshoot (TGTs ! 6) 128 w0)) \<noteq> 1"
    and "calibration_process e_overshoot (TGTs ! 6) 128 w0 =
       calibration_loop e_overshoot (TGTs ! 6)
         \<lparr>calib = next_calib 8010 (FREQ (TGTs ! 6)) 128, lastcalib = 128,
          difference = diff 8010 (FREQ (TGTs ! 6)), measured = [(128, 8010)],
          wld = w0\<lparr>clock := clock w0 + 64, gates := gates w0 + 1,
            trace := trace w0 @
              [PrintHex 128, PrintDec 8010, Init, Tx 0xAC, Tx 0x53, Tx 0, Tx 0,
               Tx 0xC0, Tx 0, Tx 0, Tx (next_calib 8010 (FREQ (TGTs ! 6)) 128), Release]\<rparr>\<rparr>"
    by blast+
  then have over: "hd (measured (calibration_process e_overshoot (TGTs ! 6) 128 w0)) = (128, 8010)"
    "difference (calibration_process e_overshoot (TGTs ! 6) 128 w0) \<le> 10"
    "length (measured (calibration_process e_overshoot (TGTs ! 6) 128 w0)) \<noteq> 1"
    "calibration_process e_overshoot (TGTs ! 6) 128 w0 =
       calibration_loop e_overshoot (TGTs ! 6)
         \<lparr>calib = 127, lastcalib = 128, difference = 10, measured = [(128, 8010)],
          wld = \<lparr>clock = 64, gates = 1,
            trace = [PrintHex 128, PrintDec 8010, Init, Tx 0xAC, Tx 0x53, Tx 0, Tx 0,
                     Tx 0xC0, Tx 0, Tx 0, Tx 127, Release]\<rparr>\<rparr>"
    unfolding d n by (simp_all add: w0_def)
  from first_measurement_accepted [OF m refl f', where c = 128] eq
  have exact: "lastcalib (calibration_process e_exact (TGTs ! 6) 128 w0) = 128"
    "difference (calibration_process e_exact (TGTs ! 6) 128 w0) = 0"
    "measured (calibration_process e_exact (TGTs ! 6) 128 w0) = [(128, 8000)]"
    by blast+
  have lt: "(10 :: uint16_t) < 65535" by simp
  from f' eq have fe: "fst (FRQ_measure e_exact w0) = FREQ (TGTs ! 6)" by simp
  from m f [symmetric] d lt over fe exact show ?thesis
    by (intro conjI)
qed

section \<open>The next calibration byte\<close>

text \<open>
  C3, as stated, fails: the calibration byte is not held at 0 and 255. Decrementing 0
  gives 255 and incrementing 255 gives 0; with a calibration byte of 0 read from the
  target and 9000 kHz measured against 8000 kHz, the first round of the loop writes 255
  to the EEPROM of the target.
\<close>

theorem next_calib_wraps:
  "next_calib 9000 8000 0 = 255 \<and> next_calib 7000 8000 255 = 0
   \<and> calibration_step e_fast (TGTs ! 6)
        \<lparr>calib = 0, lastcalib = 0, difference = 65535, measured = [], wld = w0\<rparr>
      = Continue \<lparr>calib = 255, lastcalib = 0, difference = 1000, measured = [(0, 9000)],
          wld = \<lparr>clock = 64, gates = 1,
            trace = [PrintHex 0, PrintDec 9000, Init, Tx 0xAC, Tx 0x53, Tx 0, Tx 0,
                     Tx 0xC0, Tx 0, Tx 0, Tx 255, Release]\<rparr>\<rparr>"
  by (simp add: calibration_step_def
      split_def Let_def FRQ_measure_def FRQ_count_def diff_def next_calib_def
      print_results_eq ICSP_enterProgMode_snd ICSP_writeEEPROM_eq ICSP_exitProgMode_eq
      e_fast_def w0_def TGTs_6)

text \<open>
  C3, as the code has it. The next calibration byte is the current one minus 1 if the
  measured frequency is above the nominal one and plus 1 otherwise, in 8-bit unsigned
  arithmetic and without a clamp: away from the ends of the range (a byte other than 0
  when decrementing, other than 255 when incrementing) the step is exactly one down or
  up; at the ends it wraps, from 0 to 255 and from 255 to 0.
\<close>

theorem next_calib_modular:
  "(frequency > freq \<and> c \<noteq> 0 \<longrightarrow> unat (next_calib frequency freq c) = unat c - 1)
   \<and> (\<not> frequency > freq \<and> c \<noteq> 255 \<longrightarrow> unat (next_calib frequency freq c) = unat c + 1)
   \<and> (frequency > freq \<and> c = 0 \<longrightarrow> next_calib frequency freq c = 255)
   \<and> (\<not> frequency > freq \<and> c = 255 \<longrightarrow> next_calib frequency freq c = 0)"
proof (intro conjI impI)
  assume "frequency > freq \<and> c \<noteq> 0"
  then show "unat (next_calib frequency freq c) = unat c - 1"
    by (simp add: next_calib_def unat_minus_one)
next
  assume a: "\<not> frequency > freq \<and> c \<noteq> 255"
  then have "unat c \<noteq> 255"
    by (simp add: word_unat_eq_iff)
  with unat8_less [of c] have "unat c + 1 < 256" by simp
  then have "unat (c + 1) = unat c + 1"
    by (simp add: unat_word_ariths)
  with a show "unat (next_calib frequency freq c) = unat c + 1"
    by (simp add: next_calib_def)
next
  assume "frequency > freq \<and> c = 0"
  then show "next_calib frequency freq c = 255" by (simp add: next_calib_def)
next
  assume "\<not> frequency > freq \<and> c = 255"
  then show "next_calib frequency freq c = 0" by (simp add: next_calib_def)
qed

theorem next_calib_modular_witness:
  "(9000 :: uint16_t) > 8000 \<and> (128 :: uint8_t) \<noteq> 0 \<and> unat (next_calib 9000 8000 128) = 127
   \<and> \<not> (7000 :: uint16_t) > 8000 \<and> (128 :: uint8_t) \<noteq> 255
   \<and> unat (next_calib 7000 8000 128) = 129"
proof -
  have a: "(9000 :: uint16_t) > 8000 \<and> (128 :: uint8_t) \<noteq> 0" by simp
  have b: "\<not> (7000 :: uint16_t) > 8000 \<and> (128 :: uint8_t) \<noteq> 255" by simp
  from next_calib_modular [of 8000 9000 128] a
  have "unat (next_calib 9000 8000 128) = unat (128 :: uint8_t) - 1" by blast
  moreover from next_calib_modular [of 8000 7000 128] b
  have "unat (next_calib 7000 8000 128) = unat (128 :: uint8_t) + 1" by blast
  ultimately show ?thesis using a b by simp
qed

end
